theory Spec2Isabelle
  imports Main "HOL-Library.Signed_Division"
begin

section \<open>The IR that the blockwise-to-threadwise lowering reads and writes\<close>

text \<open>
  The pass of \<^verbatim>\<open>BlockwiseGemmToThreadwise.cpp\<close> rewrites four MIOpen operations into
  loops, register allocations and threadwise primitives. The rewrite patterns are pure
  functions of the matched operation (its operands, their types and its attributes); what
  they produce is a piece of IR. The model below keeps that shape: an operation is a value of
  a datatype, the result of a pattern is the list of operations it created, in creation order,
  together with the values that replace the results of the matched operation.

  Attribute values are \<^verbatim>\<open>int64_t\<close> in the source and \<^typ>\<open>int\<close> here. They are tile
  sizes and buffer offsets; signed overflow of their products is undefined behaviour in C++
  and lies outside the model. Division is the truncating division of C++ (\<open>sdiv\<close>,
  \<open>smod\<close>), and a division by zero is an error value.
\<close>

datatype Type = F32 | F16 | BF16 | I8 | I32 | IndexType | VectorType "int list" Type

datatype MemorySpace = DefaultSpace | WorkgroupSpace | PrivateAddressSpace

record MemRefType =
  shape :: "int list"
  elementType :: Type
  memorySpace :: MemorySpace

text \<open>
  Loops and result-bearing operations are told apart by an identifier: the name of the C++
  variable that holds the operation, or the dimension number for the loops of an affine loop
  nest.
\<close>

datatype ident = Named string | Dim nat

text \<open>
  An SSA value is written as the term that defines it. \<open>Operand\<close> is a value defined
  outside the rewritten operation, \<open>InductionVar\<close> the induction variable of a loop,
  \<open>OpResult l i\<close> the \<open>i\<close>-th result of the operation \<open>l\<close>, and
  \<open>LowerCoords l d\<close> the coordinate range \<^verbatim>\<open>getLowerCoords(d)\<close> of the
  transforming loop \<open>l\<close>. The other constructors are operations with one result.
\<close>

datatype Val =
    Operand string
  | InductionVar ident
  | OpResult ident nat
  | LowerCoords ident nat
  | ConstantIndexOp int
  | AddIOp Val Val
  | MulIOp Val Val
  | DivUIOp Val Val
  | RemUIOp Val Val
  | WorkitemIdOp
  | LoadOp Val "Val list"
  | InBoundsLoadOp Type Val "Val list"
  | TypeConversionOp Val Type
  | TransformOp Val "string list" "int list"

datatype StoreMethod = StoreSet | StoreAtomicAdd

datatype error =
    AssertionFailure string
  | Unreachable string
  | IndexOutOfRange
  | DivisionByZero
  | NoXdlopsInstruction

datatype LogicalResult = success | failure

subsection \<open>The four operations the pass rewrites\<close>

record FillOp =
  fill_input :: Val
  fill_inputType :: MemRefType
  fill_value :: Val

record BlockwiseGemmOp =
  bg_matrixA :: Val
  bg_matrixAType :: MemRefType
  bg_matrixB :: Val
  bg_matrixBType :: MemRefType
  bg_matrixC :: Val
  bg_matrixCType :: MemRefType
  bg_threadOffsetA :: Val
  bg_threadOffsetB :: Val
  bg_kPerThread :: int
  bg_mPerThread :: int
  bg_nPerThread :: int
  bg_mRepeatStride :: int
  bg_nRepeatStride :: int

record BlockwiseGemmV2Op =
  v2_matrixA :: Val
  v2_matrixAType :: MemRefType
  v2_matrixB :: Val
  v2_waveOffsetA :: Val
  v2_waveOffsetB :: Val
  v2_bufferA :: Val
  v2_bufferAType :: MemRefType
  v2_bufferB :: Val
  v2_bufferBType :: MemRefType
  v2_vectorCs :: "Val list"
  v2_vectorDs :: "Type list"
  v2_ldsBufferOffsetA :: int
  v2_ldsBufferOffsetB :: int
  v2_m :: int
  v2_n :: int
  v2_k :: int
  v2_m_per_wave :: int
  v2_n_per_wave :: int
  v2_kpack :: "int option"

record ThreadwiseCopyV2Op =
  tc_source :: Val
  tc_sourceType :: MemRefType
  tc_sourceCoord :: Val
  tc_dest :: Val
  tc_destType :: MemRefType
  tc_destCoord :: "Val list"
  tc_length :: int
  tc_leftOobDims :: "int list"
  tc_rightOobDims :: "int list"
  tc_storeMethod :: StoreMethod

subsection \<open>Operations the patterns create\<close>

text \<open>
  A transform map is kept as the sequence of builder calls that made it
  (\<^verbatim>\<open>TopDownTMBuilder\<close>, \<^verbatim>\<open>BottomUpTMBuilder\<close>); the builders themselves are not
  part of the file under study, so the maps are descriptors only.
\<close>

datatype Transform =
    PassThroughName string
  | PassThrough "string list" "nat list" "string list"
  | Embed string nat int "string list" "int list"
  | Unmerge "string list" "nat list" string "int list"

datatype TMDirection = TopDown | BottomUp

record TransformMapAttr =
  tm_direction :: TMDirection
  tm_startNames :: "string list"
  tm_startShape :: "int list"
  tm_transforms :: "Transform list"

record XdlopsGemmV2 =
  x_resultTypes :: "Type list"
  x_matrixA :: Val
  x_matrixB :: Val
  x_ldsBufferOffsetA :: int
  x_ldsBufferOffsetB :: int
  x_regOffsetA :: Val
  x_regOffsetB :: Val
  x_bufferA :: Val
  x_bufferB :: Val
  x_vectorCs :: "Val list"
  x_m :: int
  x_n :: int
  x_k :: int
  x_m_per_wave :: int
  x_n_per_wave :: int
  x_kpack :: "int option"

text \<open>
  \<open>ValOp v\<close> is the creation of the operation at the root of the term \<open>v\<close>; its
  operands are values created earlier. Every \<^verbatim>\<open>create\<close> of the source is one entry of
  an operation list, in creation order. The \<^verbatim>\<open>affine.yield\<close> terminator that ends every
  loop body is implicit.
\<close>

datatype Op =
    ValOp Val
  | StoreOp Val Val "Val list"
  | AffineForOp ident int int int "Op list"
  | TransformingForOp ident "Val list list" "TransformMapAttr list list" "int list"
      "int list option" bool bool "Op list"
  | GpuAllocOp ident MemRefType
  | ThreadwiseGemmOp Val Val Val
  | XdlopsGemmV2Op ident XdlopsGemmV2
  | BufferStoreOp Val Val "int list" "int list" "Val list" StoreMethod
  | Fill FillOp
  | BlockwiseGemm BlockwiseGemmOp
  | BlockwiseGemmV2 BlockwiseGemmV2Op
  | ThreadwiseCopyV2 ThreadwiseCopyV2Op
  | OtherOp string "Op list"

text \<open>
  What a pattern leaves behind: the operations it created, the values that replace the
  results of the matched operation (\<open>None\<close> when the pattern neither replaced nor erased
  it), and the \<^verbatim>\<open>LogicalResult\<close> it returned. An abort (a failed \<^verbatim>\<open>assert\<close>,
  \<^verbatim>\<open>llvm_unreachable\<close>) is the \<open>Inl\<close> of the result.
\<close>

record RewriteResult =
  emitted :: "Op list"
  replacement :: "Val list option"
  status :: LogicalResult

section \<open>ThreadwiseCopyV2 lowering\<close>

text \<open>
  The two types the pattern computes from the copy length. The buffer store is built from
  the loaded value, so the type it writes is \<open>typeToLoad\<close>; the source computes
  \<open>typeToStore\<close> and hands it to no operation.
\<close>

definition typeToLoad :: "ThreadwiseCopyV2Op \<Rightarrow> Type" where
  "typeToLoad op =
    (let copyLength = tc_length op;
         typeToLoad = elementType (tc_sourceType op)
     in if copyLength > 1 then VectorType [copyLength] typeToLoad else typeToLoad)"

definition typeToStore :: "ThreadwiseCopyV2Op \<Rightarrow> Type" where
  "typeToStore op =
    (let copyLength = tc_length op;
         typeToStore = elementType (tc_destType op)
     in if copyLength > 1 then VectorType [copyLength] typeToStore else typeToStore)"

definition ThreadwiseCopyV2RewritePattern :: "ThreadwiseCopyV2Op \<Rightarrow> error + RewriteResult" where
  "ThreadwiseCopyV2RewritePattern op =
    (let source = tc_source op;
         sourceCoord = tc_sourceCoord op;
         loaded = InBoundsLoadOp (typeToLoad op) source [sourceCoord]
     in Inr \<lparr> emitted = [ValOp loaded,
                          BufferStoreOp loaded (tc_dest op) (tc_leftOobDims op)
                            (tc_rightOobDims op) (tc_destCoord op) (tc_storeMethod op)],
              replacement = Some [],
              status = success \<rparr>)"

text \<open>The type of the result of a value-producing operation, where the operation states it.\<close>

fun resultType :: "Val \<Rightarrow> Type option" where
  "resultType (InBoundsLoadOp ty m idx) = Some ty"
| "resultType (TypeConversionOp v ty) = Some ty"
| "resultType (ConstantIndexOp c) = Some IndexType"
| "resultType (AddIOp a b) = Some IndexType"
| "resultType (MulIOp a b) = Some IndexType"
| "resultType (DivUIOp a b) = Some IndexType"
| "resultType (RemUIOp a b) = Some IndexType"
| "resultType WorkitemIdOp = Some IndexType"
| "resultType _ = None"

text \<open>The type of the value that a store writes.\<close>

fun storedValueType :: "Op \<Rightarrow> Type option" where
  "storedValueType (BufferStoreOp v m left right idx method) = resultType v"
| "storedValueType (StoreOp v m idx) = resultType v"
| "storedValueType _ = None"

section \<open>Helpers shared by the gemm lowerings\<close>

definition bindE :: "error + 'a \<Rightarrow> ('a \<Rightarrow> error + 'b) \<Rightarrow> error + 'b" where
  "bindE m f = (case m of Inl e \<Rightarrow> Inl e | Inr x \<Rightarrow> f x)"

text \<open>\<^verbatim>\<open>type.getShape()[i]\<close>: reading past the rank of the type is a failed assertion.\<close>

definition getShape :: "MemRefType \<Rightarrow> nat \<Rightarrow> error + int" where
  "getShape t i = (if i < length (shape t) then Inr (shape t ! i) else Inl IndexOutOfRange)"

text \<open>The \<^verbatim>\<open>/\<close> of \<^verbatim>\<open>int64_t\<close>: truncating, and undefined for a zero divisor.\<close>

definition divide :: "int \<Rightarrow> int \<Rightarrow> error + int" where
  "divide a b = (if b = 0 then Inl DivisionByZero else Inr (a sdiv b))"

text \<open>
  Modelled from the spec: \<^verbatim>\<open>createTypeConversionOp\<close> is a utility outside the file
  under study. Per the spec the copy loop applies "an element type conversion at each element
  if source/destination types differ"; the conversion is one of the "arithmetic primitives".
\<close>

definition createTypeConversionOp :: "Val \<Rightarrow> Type \<Rightarrow> Type \<Rightarrow> Val \<times> Op list" where
  "createTypeConversionOp v sourceType destType =
     (if sourceType = destType then (v, [])
      else (TypeConversionOp v destType, [ValOp (TypeConversionOp v destType)]))"

text \<open>
  Modelled from the spec: \<^verbatim>\<open>reshapeBuffer\<close> is a utility outside the file under study.
  Per the spec it is "a zero-cost coordinate re-view, not a data copy" of the flat register
  buffer under the given dimension names and extents: one transform operation.
\<close>

definition reshapeBuffer :: "Val \<Rightarrow> string list \<Rightarrow> int list \<Rightarrow> Val" where
  "reshapeBuffer buffer names extents = TransformOp buffer names extents"

section \<open>BlockwiseGemm lowering\<close>

text \<open>
  \<^verbatim>\<open>untransform\<close> is a utility outside the file under study and the spec does not
  describe it: it is a parameter of the pattern. It takes the matrix operand and the new
  transform, and returns the buffer to load from and the transforms that lead to it.
\<close>

type_synonym untransformFn = "Val \<Rightarrow> TransformMapAttr list \<Rightarrow> Val \<times> TransformMapAttr list"

definition strideLDSBuffer ::
  "string \<Rightarrow> string \<Rightarrow> string \<Rightarrow> int \<Rightarrow> int \<Rightarrow> int \<Rightarrow> int \<Rightarrow> int \<Rightarrow> int \<Rightarrow> TransformMapAttr" where
  "strideLDSBuffer lower repeatName perThreadName k repeat perRepeat kPack extent repeatStride =
     \<lparr> tm_direction = TopDown,
       tm_startNames = [''k'', repeatName, perThreadName, ''kpack''],
       tm_startShape = [k, repeat, perRepeat, kPack],
       tm_transforms =
         [PassThroughName ''k'',
          Embed lower 1 extent [repeatName, perThreadName] [repeatStride, 1],
          PassThrough [''kpack''] [2] [''kpack'']] \<rparr>"

definition threadCopyView ::
  "string \<Rightarrow> string \<Rightarrow> int \<Rightarrow> int \<Rightarrow> int \<Rightarrow> int \<Rightarrow> int \<Rightarrow> TransformMapAttr" where
  "threadCopyView repeatName perThreadName numRegisters kPerThread repeat perThread kPack =
     \<lparr> tm_direction = BottomUp,
       tm_startNames = [''raw''],
       tm_startShape = [numRegisters],
       tm_transforms =
         [Unmerge [''k'', repeatName, perThreadName, ''kpack''] [0, 1, 2, 3] ''raw''
            [kPerThread, repeat, perThread, kPack]] \<rparr>"

text \<open>
  The copy loop of one operand: a transforming loop over
  \<open>{kPerThread, repeat, perThread, kPack}\<close> whose body loads one element of the matrix at the
  lower coordinates of domain 0, converts it to the element type of the accumulator and stores
  it into the register buffer at the lower coordinates of domain 1.
\<close>

definition copyLoop ::
  "string \<Rightarrow> Val list \<Rightarrow> Val list \<Rightarrow> TransformMapAttr list \<Rightarrow> TransformMapAttr \<Rightarrow> int list
   \<Rightarrow> Val \<Rightarrow> Type \<Rightarrow> Type \<Rightarrow> Val \<Rightarrow> Op" where
  "copyLoop name ldsBufferStartCoords registerStartCoords transforms threadCopyViewAttr bounds
            matrix matrixElementType elementType' threadAllocOp =
     (let copy = LoadOp matrix [LowerCoords (Named name) 0];
          (cast, castOps) = createTypeConversionOp copy matrixElementType elementType'
      in TransformingForOp (Named name) [ldsBufferStartCoords, registerStartCoords]
           [transforms, [threadCopyViewAttr]] bounds None True True
           ([ValOp copy] @ castOps @ [StoreOp cast threadAllocOp [LowerCoords (Named name) 1]]))"

definition BlockwiseGemmRewritePattern ::
  "untransformFn \<Rightarrow> BlockwiseGemmOp \<Rightarrow> error + RewriteResult" where
  "BlockwiseGemmRewritePattern untransform op =
    (let zeroConstantOp = ConstantIndexOp 0;
         blockAType = bg_matrixAType op;
         blockBType = bg_matrixBType op;
         bufferCType = bg_matrixCType op;
         elementType' = elementType bufferCType
     in bindE (getShape blockAType 0) (\<lambda>k.
        bindE (getShape blockAType 1) (\<lambda>m.
        bindE (getShape blockBType 1) (\<lambda>n.
        bindE (getShape blockAType 2) (\<lambda>kPack.
        bindE (getShape bufferCType 0) (\<lambda>mC.
        bindE (getShape bufferCType 1) (\<lambda>nC.
        let kPerThread = bg_kPerThread op;
            mPerThread = bg_mPerThread op;
            nPerThread = bg_nPerThread op;
            mRepeatStride = bg_mRepeatStride op;
            nRepeatStride = bg_nRepeatStride op
        in bindE (divide mC mPerThread) (\<lambda>mRepeat.
           bindE (divide nC nPerThread) (\<lambda>nRepeat.
           bindE (divide m mRepeat) (\<lambda>mPerRepeat.
           bindE (divide n nRepeat) (\<lambda>nPerRepeat.
           let strideLDSBufferAAttr =
                 strideLDSBuffer ''m'' ''mRepeat'' ''mPerThread'' k mRepeat mPerRepeat kPack m
                   mRepeatStride;
               strideLDSBufferBAttr =
                 strideLDSBuffer ''n'' ''nRepeat'' ''nPerThread'' k nRepeat nPerRepeat kPack n
                   nRepeatStride;
               (matrixA, transformsA) = untransform (bg_matrixA op) [strideLDSBufferAAttr];
               (matrixB, transformsB) = untransform (bg_matrixB op) [strideLDSBufferBAttr];
               threadANumRegisters = kPerThread * mC * kPack;
               threadBNumRegisters = kPerThread * nC * kPack;
               threadARegisterMemRefType =
                 \<lparr> shape = [threadANumRegisters], elementType = elementType',
                   memorySpace = PrivateAddressSpace \<rparr>;
               threadAAllocOp = OpResult (Named ''threadAAllocOp'') 0;
               threadBRegisterMemRefType =
                 \<lparr> shape = [threadBNumRegisters], elementType = elementType',
                   memorySpace = PrivateAddressSpace \<rparr>;
               threadBAllocOp = OpResult (Named ''threadBAllocOp'') 0;
               threadACopyViewAttr =
                 threadCopyView ''mRepeat'' ''mPerThread'' threadANumRegisters kPerThread mRepeat
                   mPerThread kPack;
               threadBCopyViewAttr =
                 threadCopyView ''nRepeat'' ''nPerThread'' threadBNumRegisters kPerThread nRepeat
                   nPerThread kPack;
               kOffset = InductionVar (Named ''loopOp'');
               registerStartCoords = replicate 4 zeroConstantOp;
               ldsBufferAStartCoords =
                 [kOffset, zeroConstantOp, bg_threadOffsetA op, zeroConstantOp];
               copyALoop =
                 copyLoop ''copyALoop'' ldsBufferAStartCoords registerStartCoords transformsA
                   threadACopyViewAttr [kPerThread, mRepeat, mPerThread, kPack]
                   matrixA (elementType blockAType) elementType' threadAAllocOp;
               ldsBufferBStartCoords =
                 [kOffset, zeroConstantOp, bg_threadOffsetB op, zeroConstantOp];
               copyBLoop =
                 copyLoop ''copyBLoop'' ldsBufferBStartCoords registerStartCoords transformsB
                   threadBCopyViewAttr [kPerThread, nRepeat, nPerThread, kPack]
                   matrixB (elementType blockBType) elementType' threadBAllocOp;
               reshapedARegisters =
                 reshapeBuffer threadAAllocOp [''k'', ''m'', ''kpack''] [kPerThread, mC, kPack];
               reshapedBRegisters =
                 reshapeBuffer threadBAllocOp [''k'', ''n'', ''kpack''] [kPerThread, nC, kPack];
               loopOp =
                 AffineForOp (Named ''loopOp'') 0 k kPerThread
                   [copyALoop, copyBLoop, ValOp reshapedARegisters, ValOp reshapedBRegisters,
                    ThreadwiseGemmOp reshapedARegisters reshapedBRegisters (bg_matrixC op)]
           in Inr \<lparr> emitted =
                      [ValOp zeroConstantOp,
                       GpuAllocOp (Named ''threadAAllocOp'') threadARegisterMemRefType,
                       GpuAllocOp (Named ''threadBAllocOp'') threadBRegisterMemRefType,
                       loopOp],
                    replacement = Some [],
                    status = success \<rparr>)))))))))))"

section \<open>BlockwiseGemmV2 lowering\<close>

text \<open>
  The instruction table \<^verbatim>\<open>XdlopsCodeSelection\<close> is outside the file under study. The
  fields the lowering reads are kept in a record, and the lookup
  \<^verbatim>\<open>XdlopsCodeSelection::get(dataType, MPerWave, NPerWave, b)\<close> is a parameter of the
  pattern; it returns the selection or aborts.
\<close>

record XdlopsCodeSelection =
  instr :: string
  imms :: "nat list list"
  argType :: Type
  num_threads_blk :: int
  num_input_blks :: int
  num_output_blks :: int
  k_base :: int

type_synonym selectFn = "Type \<Rightarrow> int \<Rightarrow> int \<Rightarrow> error + XdlopsCodeSelection"

definition KPack :: "BlockwiseGemmV2Op \<Rightarrow> int" where
  "KPack op = (case v2_kpack op of Some kpack \<Rightarrow> kpack | None \<Rightarrow> 1)"

definition MRepeats :: "BlockwiseGemmV2Op \<Rightarrow> int" where
  "MRepeats op = (if v2_m_per_wave op > 64 then v2_m_per_wave op sdiv 64 else 1)"

definition NRepeats :: "BlockwiseGemmV2Op \<Rightarrow> int" where
  "NRepeats op = (if v2_n_per_wave op > 64 then v2_n_per_wave op sdiv 64 else 1)"

definition MPerXdlops :: "BlockwiseGemmV2Op \<Rightarrow> int" where
  "MPerXdlops op = (if v2_m_per_wave op > 64 then 64 else v2_m_per_wave op)"

definition NPerXdlops :: "BlockwiseGemmV2Op \<Rightarrow> int" where
  "NPerXdlops op = (if v2_n_per_wave op > 64 then 64 else v2_n_per_wave op)"

definition aBase :: "BlockwiseGemmV2Op \<Rightarrow> Val" where
  "aBase op =
     AddIOp (v2_waveOffsetA op) (ConstantIndexOp (v2_ldsBufferOffsetA op sdiv KPack op))"

definition bBase :: "BlockwiseGemmV2Op \<Rightarrow> Val" where
  "bBase op =
     AddIOp (v2_waveOffsetB op) (ConstantIndexOp (v2_ldsBufferOffsetB op sdiv KPack op))"

definition IsKReduction :: "XdlopsCodeSelection \<Rightarrow> bool" where
  "IsKReduction xcs = (num_output_blks xcs = 1 \<and> num_input_blks xcs > 1)"

definition waveSize :: int where
  "waveSize = 64"

definition laneId :: Val where
  "laneId = RemUIOp WorkitemIdOp (ConstantIndexOp waveSize)"

definition KPerThread :: "BlockwiseGemmV2Op \<Rightarrow> XdlopsCodeSelection \<Rightarrow> int" where
  "KPerThread op xcs = (if IsKReduction xcs then v2_k op sdiv num_input_blks xcs else v2_k op)"

text \<open>
  \<^verbatim>\<open>if (KPack > 1) sourceOffset = sourceOffset * KPack\<close>: the value, and the operations
  created for it.
\<close>

definition timesKPack :: "BlockwiseGemmV2Op \<Rightarrow> Val \<Rightarrow> Val" where
  "timesKPack op sourceOffset =
     (if KPack op > 1 then MulIOp sourceOffset (ConstantIndexOp (KPack op)) else sourceOffset)"

definition timesKPackOps :: "BlockwiseGemmV2Op \<Rightarrow> Val \<Rightarrow> Op list" where
  "timesKPackOps op sourceOffset =
     (if KPack op > 1
      then [ValOp (ConstantIndexOp (KPack op)),
            ValOp (MulIOp sourceOffset (ConstantIndexOp (KPack op)))]
      else [])"

subsection \<open>Staging without K reduction\<close>

definition mOffset :: "BlockwiseGemmV2Op \<Rightarrow> Val" where
  "mOffset op =
     AddIOp (aBase op)
       (MulIOp (ConstantIndexOp (MPerXdlops op)) (InductionVar (Named ''outerLoopM'')))"

definition nOffset :: "BlockwiseGemmV2Op \<Rightarrow> Val" where
  "nOffset op =
     AddIOp (bBase op)
       (MulIOp (ConstantIndexOp (NPerXdlops op)) (InductionVar (Named ''outerLoopN'')))"

definition sourceOffsetA :: "BlockwiseGemmV2Op \<Rightarrow> Val" where
  "sourceOffsetA op =
     AddIOp (AddIOp (MulIOp (InductionVar (Named ''innerLoopMK'')) (ConstantIndexOp (v2_m op)))
                    laneId)
            (mOffset op)"

definition sourceOffsetB :: "BlockwiseGemmV2Op \<Rightarrow> Val" where
  "sourceOffsetB op =
     AddIOp (AddIOp (MulIOp (InductionVar (Named ''innerLoopNK'')) (ConstantIndexOp (v2_n op)))
                    laneId)
            (nOffset op)"

definition outerLoopM :: "BlockwiseGemmV2Op \<Rightarrow> XdlopsCodeSelection \<Rightarrow> Op" where
  "outerLoopM op xcs =
    (let olmiv = InductionVar (Named ''outerLoopM'');
         MConstantOp = ConstantIndexOp (v2_m op);
         KConstantOp = ConstantIndexOp (v2_k op);
         MPerXdlopsConstantOp = ConstantIndexOp (MPerXdlops op);
         kOffsetA = MulIOp olmiv KConstantOp;
         ilmkiv = InductionVar (Named ''innerLoopMK'');
         destOffsetA = AddIOp ilmkiv kOffsetA;
         valueA = InBoundsLoadOp (elementType (v2_bufferAType op)) (v2_matrixA op)
                    [timesKPack op (sourceOffsetA op)]
     in AffineForOp (Named ''outerLoopM'') 0 (MRepeats op) 1
          [ValOp (MulIOp MPerXdlopsConstantOp olmiv),
           ValOp (mOffset op),
           ValOp kOffsetA,
           AffineForOp (Named ''innerLoopMK'') 0 (KPerThread op xcs) 1
             ([ValOp (MulIOp ilmkiv MConstantOp),
               ValOp (AddIOp (MulIOp ilmkiv MConstantOp) laneId),
               ValOp (sourceOffsetA op)]
              @ timesKPackOps op (sourceOffsetA op)
              @ [ValOp destOffsetA,
                 ValOp valueA,
                 StoreOp valueA (v2_bufferA op) [destOffsetA]])])"

definition outerLoopN :: "BlockwiseGemmV2Op \<Rightarrow> XdlopsCodeSelection \<Rightarrow> Op" where
  "outerLoopN op xcs =
    (let olniv = InductionVar (Named ''outerLoopN'');
         NConstantOp = ConstantIndexOp (v2_n op);
         KConstantOp = ConstantIndexOp (v2_k op);
         NPerXdlopsConstantOp = ConstantIndexOp (NPerXdlops op);
         kOffsetB = MulIOp olniv KConstantOp;
         ilnkiv = InductionVar (Named ''innerLoopNK'');
         destOffsetB = AddIOp ilnkiv kOffsetB;
         valueB = InBoundsLoadOp (elementType (v2_bufferBType op)) (v2_matrixB op)
                    [timesKPack op (sourceOffsetB op)]
     in AffineForOp (Named ''outerLoopN'') 0 (NRepeats op) 1
          [ValOp (MulIOp NPerXdlopsConstantOp olniv),
           ValOp (nOffset op),
           ValOp kOffsetB,
           AffineForOp (Named ''innerLoopNK'') 0 (KPerThread op xcs) 1
             ([ValOp (MulIOp ilnkiv NConstantOp),
               ValOp (AddIOp (MulIOp ilnkiv NConstantOp) laneId),
               ValOp (sourceOffsetB op)]
              @ timesKPackOps op (sourceOffsetB op)
              @ [ValOp destOffsetB,
                 ValOp valueB,
                 StoreOp valueB (v2_bufferB op) [destOffsetB]])])"

subsection \<open>Staging with K reduction\<close>

definition blk_id :: "XdlopsCodeSelection \<Rightarrow> Val" where
  "blk_id xcs = DivUIOp laneId (ConstantIndexOp (num_threads_blk xcs))"

definition blk_td :: "XdlopsCodeSelection \<Rightarrow> Val" where
  "blk_td xcs = RemUIOp laneId (ConstantIndexOp (num_threads_blk xcs))"

definition kBaseA :: "BlockwiseGemmV2Op \<Rightarrow> XdlopsCodeSelection \<Rightarrow> Val" where
  "kBaseA op xcs = AddIOp (aBase op) (blk_td xcs)"

definition kBaseB :: "BlockwiseGemmV2Op \<Rightarrow> XdlopsCodeSelection \<Rightarrow> Val" where
  "kBaseB op xcs = AddIOp (bBase op) (blk_td xcs)"

text \<open>
  The source offset of the K-reduction loop, before the multiplication by KPack; \<open>extent\<close>
  is M for matrix A and N for matrix B, \<open>kBase\<close> is \<open>kBaseA\<close> or \<open>kBaseB\<close>.
\<close>

definition sourceOffsetKReduction :: "XdlopsCodeSelection \<Rightarrow> int \<Rightarrow> Val \<Rightarrow> Val" where
  "sourceOffsetKReduction xcs extent kBase =
     AddIOp (MulIOp (AddIOp (MulIOp (InductionVar (Named ''loopKLoad''))
                                    (ConstantIndexOp (num_input_blks xcs)))
                            (blk_id xcs))
                    (ConstantIndexOp extent))
            kBase"

definition loadKReduction ::
  "BlockwiseGemmV2Op \<Rightarrow> XdlopsCodeSelection \<Rightarrow> int \<Rightarrow> Val \<Rightarrow> Type \<Rightarrow> Val \<Rightarrow> Val \<Rightarrow> Op list" where
  "loadKReduction op xcs extent kBase bufferElementType matrix buffer =
    (let lkliv = InductionVar (Named ''loopKLoad'');
         NumInputBlksConstantOp = ConstantIndexOp (num_input_blks xcs);
         sourceOffset = sourceOffsetKReduction xcs extent kBase;
         value = InBoundsLoadOp bufferElementType matrix [timesKPack op sourceOffset]
     in [ValOp (MulIOp lkliv NumInputBlksConstantOp),
         ValOp (AddIOp (MulIOp lkliv NumInputBlksConstantOp) (blk_id xcs)),
         ValOp (MulIOp (AddIOp (MulIOp lkliv NumInputBlksConstantOp) (blk_id xcs))
                       (ConstantIndexOp extent)),
         ValOp sourceOffset]
        @ timesKPackOps op sourceOffset
        @ [ValOp value,
           StoreOp value buffer [lkliv]])"

definition loopKLoad :: "BlockwiseGemmV2Op \<Rightarrow> XdlopsCodeSelection \<Rightarrow> Op" where
  "loopKLoad op xcs =
     AffineForOp (Named ''loopKLoad'') 0 (KPerThread op xcs) 1
       (loadKReduction op xcs (v2_m op) (kBaseA op xcs) (elementType (v2_bufferAType op))
          (v2_matrixA op) (v2_bufferA op)
        @ loadKReduction op xcs (v2_n op) (kBaseB op xcs) (elementType (v2_bufferBType op))
          (v2_matrixB op) (v2_bufferB op))"

definition staging :: "BlockwiseGemmV2Op \<Rightarrow> XdlopsCodeSelection \<Rightarrow> Op list" where
  "staging op xcs =
     (if \<not> IsKReduction xcs then [outerLoopM op xcs, outerLoopN op xcs]
      else [ValOp (ConstantIndexOp (num_threads_blk xcs)),
            ValOp (blk_id xcs),
            ValOp (blk_td xcs),
            ValOp (kBaseA op xcs),
            ValOp (kBaseB op xcs),
            ValOp (ConstantIndexOp (num_input_blks xcs)),
            loopKLoad op xcs])"

subsection \<open>The xdlops gemm operations\<close>

text \<open>
  One \<^verbatim>\<open>xdlops_gemm_v2\<close>: the operands and attributes of the blockwise operation, with
  the given result types, register offsets, accumulators and per-wave sizes.
\<close>

definition xdlopsGemmV2 ::
  "BlockwiseGemmV2Op \<Rightarrow> Type list \<Rightarrow> Val \<Rightarrow> Val \<Rightarrow> Val list \<Rightarrow> int \<Rightarrow> int \<Rightarrow> XdlopsGemmV2" where
  "xdlopsGemmV2 op resultTypes regOffsetA regOffsetB vectorCs mPerWave nPerWave =
     \<lparr> x_resultTypes = resultTypes,
       x_matrixA = v2_matrixA op,
       x_matrixB = v2_matrixB op,
       x_ldsBufferOffsetA = v2_ldsBufferOffsetA op,
       x_ldsBufferOffsetB = v2_ldsBufferOffsetB op,
       x_regOffsetA = regOffsetA,
       x_regOffsetB = regOffsetB,
       x_bufferA = v2_bufferA op,
       x_bufferB = v2_bufferB op,
       x_vectorCs = vectorCs,
       x_m = v2_m op,
       x_n = v2_n op,
       x_k = v2_k op,
       x_m_per_wave = mPerWave,
       x_n_per_wave = nPerWave,
       x_kpack = v2_kpack op \<rparr>"

text \<open>
  \<^verbatim>\<open>op.vectorDs()[i]\<close> and \<^verbatim>\<open>vectorCs().drop_front(n)\<close> assert that the range is
  long enough; \<^verbatim>\<open>take_front(n)\<close> takes what there is.
\<close>

definition vectorD :: "BlockwiseGemmV2Op \<Rightarrow> nat \<Rightarrow> error + Type" where
  "vectorD op i =
     (if i < length (v2_vectorDs op) then Inr (v2_vectorDs op ! i) else Inl IndexOutOfRange)"

definition drop_front :: "nat \<Rightarrow> 'a list \<Rightarrow> error + 'a list" where
  "drop_front n xs = (if n \<le> length xs then Inr (drop n xs) else Inl IndexOutOfRange)"

text \<open>
  The two gemm operations of a repeated tile. The second one reads its registers at
  \<open>KPerThread\<close>: in the A buffer when M is repeated, in the B buffer when N is.
\<close>

definition twoXdlopsGemms ::
  "BlockwiseGemmV2Op \<Rightarrow> Val \<Rightarrow> Val \<Rightarrow> error + Op list \<times> Val list option" where
  "twoXdlopsGemms op regOffsetA1 regOffsetB1 =
     (let zeroConstantOp = ConstantIndexOp 0
      in bindE (vectorD op 0) (\<lambda>d0.
         bindE (vectorD op 1) (\<lambda>d1.
         let xdlopsGemmV2Op0 =
               xdlopsGemmV2 op [d0, d1] zeroConstantOp zeroConstantOp (take 2 (v2_vectorCs op))
                 64 64
         in bindE (vectorD op 2) (\<lambda>d2.
            bindE (vectorD op 3) (\<lambda>d3.
            bindE (drop_front 2 (v2_vectorCs op)) (\<lambda>cs1.
            let xdlopsGemmV2Op1 = xdlopsGemmV2 op [d2, d3] regOffsetA1 regOffsetB1 cs1 64 64
            in Inr ([XdlopsGemmV2Op (Named ''xdlopsGemmV2Op0'') xdlopsGemmV2Op0,
                     XdlopsGemmV2Op (Named ''xdlopsGemmV2Op1'') xdlopsGemmV2Op1],
                    Some [OpResult (Named ''xdlopsGemmV2Op0'') 0,
                          OpResult (Named ''xdlopsGemmV2Op0'') 1,
                          OpResult (Named ''xdlopsGemmV2Op1'') 0,
                          OpResult (Named ''xdlopsGemmV2Op1'') 1])))))))"

definition xdlopsGemms ::
  "BlockwiseGemmV2Op \<Rightarrow> XdlopsCodeSelection \<Rightarrow> error + Op list \<times> Val list option" where
  "xdlopsGemms op xcs =
     (let zeroConstantOp = ConstantIndexOp 0;
          KPerBlockConstantOp = ConstantIndexOp (KPerThread op xcs)
      in if MRepeats op = 1 \<and> NRepeats op = 1 then
           Inr ([XdlopsGemmV2Op (Named ''xdlopsGemmV2Op'')
                   (xdlopsGemmV2 op (v2_vectorDs op) zeroConstantOp zeroConstantOp
                      (v2_vectorCs op) (v2_m_per_wave op) (v2_n_per_wave op))],
                Some (map (OpResult (Named ''xdlopsGemmV2Op'')) [0 ..< length (v2_vectorDs op)]))
         else if MRepeats op = 2 \<and> NRepeats op = 1 then
           twoXdlopsGemms op KPerBlockConstantOp zeroConstantOp
         else if MRepeats op = 1 \<and> NRepeats op = 2 then
           twoXdlopsGemms op zeroConstantOp KPerBlockConstantOp
         else Inr ([], None))"

text \<open>
  The pattern. \<^verbatim>\<open>ldsOffsetA % KPack\<close> and \<^verbatim>\<open>KPack % k_base\<close> are undefined for
  a zero divisor, which is an error value here; the two \<^verbatim>\<open>assert\<close>s and the
  \<^verbatim>\<open>llvm_unreachable\<close> abort. After them nothing fails except an access past the
  accumulators. The chain on (MRepeats, NRepeats) has three branches and no final else.
\<close>

definition BlockwiseGemmV2RewritePattern ::
  "selectFn \<Rightarrow> BlockwiseGemmV2Op \<Rightarrow> error + RewriteResult" where
  "BlockwiseGemmV2RewritePattern get op =
    (let M = v2_m op;
         N = v2_n op;
         K = v2_k op;
         MPerWave = v2_m_per_wave op;
         NPerWave = v2_n_per_wave op;
         ldsOffsetA = v2_ldsBufferOffsetA op;
         ldsOffsetB = v2_ldsBufferOffsetB op
     in if KPack op = 0 then Inl DivisionByZero
        else if ldsOffsetA smod KPack op \<noteq> 0 then
          Inl (AssertionFailure ''LDS buffer segment for A is kpack-aligned'')
        else if ldsOffsetB smod KPack op \<noteq> 0 then
          Inl (AssertionFailure ''LDS buffer segment for B is kpack-aligned'')
        else
          let dataType = elementType (v2_matrixAType op)
          in bindE (get dataType MPerWave NPerWave) (\<lambda>xcs.
             if KPack op > 1 \<and> k_base xcs = 0 then Inl DivisionByZero
             else if KPack op > 1 \<and> (KPack op < k_base xcs \<or> KPack op smod k_base xcs \<noteq> 0) then
               Inl (Unreachable
                 ''Tuning parameter selection guarantees kPack is multiple of k_base,this should never happen'')
             else
               bindE (xdlopsGemms op xcs) (\<lambda>(gemms, replaced).
               Inr \<lparr> emitted =
                        [ValOp (ConstantIndexOp (ldsOffsetA sdiv KPack op)),
                         ValOp (aBase op),
                         ValOp (ConstantIndexOp (ldsOffsetB sdiv KPack op)),
                         ValOp (bBase op),
                         ValOp WorkitemIdOp,
                         ValOp (ConstantIndexOp waveSize),
                         ValOp laneId,
                         ValOp (ConstantIndexOp M),
                         ValOp (ConstantIndexOp N),
                         ValOp (ConstantIndexOp K),
                         ValOp (ConstantIndexOp (MPerXdlops op)),
                         ValOp (ConstantIndexOp (NPerXdlops op)),
                         ValOp (ConstantIndexOp 0),
                         ValOp (ConstantIndexOp (KPerThread op xcs))]
                        @ staging op xcs @ gemms,
                      replacement = replaced,
                      status = success \<rparr>)))"

section \<open>Fill lowering\<close>

text \<open>
  Modelled from the spec: \<^verbatim>\<open>buildAffineLoopNest\<close> is a library routine outside the file
  under study. Per the spec it builds "an explicit nested affine loop over every coordinate
  of the target buffer's shape": one \<^verbatim>\<open>affine.for\<close> per entry of the bound lists, each
  nested in the one before, and the body builder runs in the innermost loop with the
  induction variables of all loops, outermost first. With no bounds, the body is built in
  place. Bound lists of different lengths are a failed assertion.
\<close>

fun buildAffineLoopNest ::
  "nat \<Rightarrow> int list \<Rightarrow> int list \<Rightarrow> int list \<Rightarrow> (Val list \<Rightarrow> Op list) \<Rightarrow> Val list
   \<Rightarrow> error + Op list" where
  "buildAffineLoopNest d [] [] [] bodyBuilderFn ivs = Inr (bodyBuilderFn ivs)"
| "buildAffineLoopNest d (lb # lbs) (ub # ubs) (step # steps) bodyBuilderFn ivs =
     (case buildAffineLoopNest (Suc d) lbs ubs steps bodyBuilderFn (ivs @ [InductionVar (Dim d)]) of
        Inl e \<Rightarrow> Inl e
      | Inr inner \<Rightarrow> Inr [AffineForOp (Dim d) lb ub step inner])"
| "buildAffineLoopNest d _ _ _ bodyBuilderFn ivs =
     Inl (AssertionFailure ''expected as many lower bounds as upper bounds and steps'')"

definition FillRewritePattern :: "FillOp \<Rightarrow> error + RewriteResult" where
  "FillRewritePattern op =
    (let inputShape = shape (fill_inputType op);
         lbs = replicate (length inputShape) 0;
         strides = replicate (length inputShape) 1
     in case buildAffineLoopNest 0 lbs inputShape strides
               (\<lambda>ivs. [StoreOp (fill_value op) (fill_input op) ivs]) [] of
          Inl e \<Rightarrow> Inl e
        | Inr loops \<Rightarrow> Inr \<lparr> emitted = loops, replacement = Some [], status = success \<rparr>)"

text \<open>
  The loop nest as the specification words it, to compare with what the pattern builds: one loop per
  extent, from 0 to the extent in steps of 1, each nested in the one before, around a body.
\<close>

fun nestedAffineLoop :: "nat \<Rightarrow> int list \<Rightarrow> Op list \<Rightarrow> Op list" where
  "nestedAffineLoop d [] body = body"
| "nestedAffineLoop d (extent # extents) body =
     [AffineForOp (Dim d) 0 extent 1 (nestedAffineLoop (Suc d) extents body)]"

text \<open>The induction variables of the loops \<open>d\<close>, ..., \<open>d + n - 1\<close> of a nest.\<close>

definition inductionVars :: "nat \<Rightarrow> nat \<Rightarrow> Val list" where
  "inductionVars d n = map (\<lambda>j. InductionVar (Dim j)) [d ..< d + n]"

text \<open>The coordinates of a buffer of the given shape, in row-major order.\<close>

definition coordinates :: "int list \<Rightarrow> int list list" where
  "coordinates extents = product_lists (map (\<lambda>extent. map int [0 ..< nat extent]) extents)"

section \<open>What the created loops do when they run\<close>

text \<open>
  Index values are evaluated over the integers. \<^verbatim>\<open>arith.divui\<close> and
  \<^verbatim>\<open>arith.remui\<close> read their operands as unsigned numbers, so they are evaluated for a
  non-negative dividend and a positive divisor only; anything else, and every value that is
  not an index computation, has no value here.
\<close>

record Env =
  operands :: "string \<Rightarrow> int"
  ivs :: "ident \<Rightarrow> int"
  workitemId :: int

definition binop :: "(int \<Rightarrow> int \<Rightarrow> int option) \<Rightarrow> int option \<Rightarrow> int option \<Rightarrow> int option" where
  "binop f a b = (case a of None \<Rightarrow> None | Some x \<Rightarrow> (case b of None \<Rightarrow> None | Some y \<Rightarrow> f x y))"

fun eval :: "Env \<Rightarrow> Val \<Rightarrow> int option" where
  "eval E (Operand x) = Some (operands E x)"
| "eval E (InductionVar i) = Some (ivs E i)"
| "eval E (ConstantIndexOp c) = Some c"
| "eval E (AddIOp a b) = binop (\<lambda>x y. Some (x + y)) (eval E a) (eval E b)"
| "eval E (MulIOp a b) = binop (\<lambda>x y. Some (x * y)) (eval E a) (eval E b)"
| "eval E (DivUIOp a b) =
     binop (\<lambda>x y. if 0 \<le> x \<and> 0 < y then Some (x div y) else None) (eval E a) (eval E b)"
| "eval E (RemUIOp a b) =
     binop (\<lambda>x y. if 0 \<le> x \<and> 0 < y then Some (x mod y) else None) (eval E a) (eval E b)"
| "eval E WorkitemIdOp = Some (workitemId E)"
| "eval E _ = None"

text \<open>
  The values an \<^verbatim>\<open>affine.for\<close> from \<open>lb\<close> to \<open>ub\<close> gives its induction variable:
  \<open>lb\<close>, \<open>lb + step\<close>, ... while below \<open>ub\<close>.
\<close>

definition iterations :: "int \<Rightarrow> int \<Rightarrow> int \<Rightarrow> int list" where
  "iterations lb ub step =
     (if step \<le> 0 then []
      else map (\<lambda>j. lb + int j * step) [0 ..< nat ((ub - lb + step - 1) div step)])"

text \<open>
  Modelled from the spec: \<^verbatim>\<open>miopen.transforming_for\<close> is defined outside the file under
  study. Per the spec it is the "indexed-loop-nest generator that, given a tuple of transform
  chains and a shape, produces nested loops whose body receives the corresponding lower-space
  coordinates for each chain": the body runs once for every point of the shape, the product of
  the extents when no strides are given.
\<close>

definition transformingForTrips :: "int list \<Rightarrow> int list option \<Rightarrow> nat" where
  "transformingForTrips bounds strides =
     (case strides of
        None \<Rightarrow> prod_list (map (\<lambda>b. length (iterations 0 b 1)) bounds)
      | Some ss \<Rightarrow> prod_list (map (\<lambda>(b, s). length (iterations 0 b s)) (zip bounds ss)))"

datatype Access = Read Val "int option list" | Write Val "int option list" Val

text \<open>
  The loads and stores that one run of an operation performs, in order, each with the
  memref it touches and the index values it uses. The coordinates of a transforming loop come
  out of its transform maps and are not evaluated (\<open>None\<close>). The threadwise and xdlops
  gemm primitives are lowered by later passes and contribute nothing here.
\<close>

fun accesses :: "Env \<Rightarrow> Op \<Rightarrow> Access list" where
  "accesses E (ValOp (LoadOp m idx)) = [Read m (map (eval E) idx)]"
| "accesses E (ValOp (InBoundsLoadOp ty m idx)) = [Read m (map (eval E) idx)]"
| "accesses E (ValOp _) = []"
| "accesses E (StoreOp v m idx) = [Write m (map (eval E) idx) v]"
| "accesses E (BufferStoreOp v m left right idx method) = [Write m (map (eval E) idx) v]"
| "accesses E (AffineForOp i lb ub step body) =
     concat (map (\<lambda>k. concat (map (accesses (E\<lparr>ivs := (ivs E)(i := k)\<rparr>)) body))
                 (iterations lb ub step))"
| "accesses E (TransformingForOp i starts maps bounds strides forceUnroll indexDiffs body) =
     concat (replicate (transformingForTrips bounds strides) (concat (map (accesses E) body)))"
| "accesses E (OtherOp name body) = concat (map (accesses E) body)"
| "accesses E _ = []"

definition isReadOf :: "Val \<Rightarrow> Access \<Rightarrow> bool" where
  "isReadOf m a = (case a of Read m' idx \<Rightarrow> m' = m | Write m' idx v \<Rightarrow> False)"

definition isWriteOf :: "Val \<Rightarrow> Access \<Rightarrow> bool" where
  "isWriteOf m a = (case a of Read m' idx \<Rightarrow> False | Write m' idx v \<Rightarrow> m' = m)"

section \<open>The pass\<close>

datatype Dialect =
    ArithmeticDialect
  | MIOpenDialect
  | AffineDialect
  | MemRefDialect
  | VectorDialect
  | OtherDialect string
  | NotAnOperation

text \<open>
  The dialect of the operation at the root of a value: the namespace of its C++ class
  (\<^verbatim>\<open>arith::\<close>, \<^verbatim>\<open>memref::\<close>, \<^verbatim>\<open>miopen::\<close>). A value that no operation of the
  pattern defines has none.
\<close>

fun dialectOfVal :: "Val \<Rightarrow> Dialect" where
  "dialectOfVal (ConstantIndexOp c) = ArithmeticDialect"
| "dialectOfVal (AddIOp a b) = ArithmeticDialect"
| "dialectOfVal (MulIOp a b) = ArithmeticDialect"
| "dialectOfVal (DivUIOp a b) = ArithmeticDialect"
| "dialectOfVal (RemUIOp a b) = ArithmeticDialect"
| "dialectOfVal (TypeConversionOp v ty) = ArithmeticDialect"
| "dialectOfVal WorkitemIdOp = MIOpenDialect"
| "dialectOfVal (InBoundsLoadOp ty m idx) = MIOpenDialect"
| "dialectOfVal (TransformOp v names extents) = MIOpenDialect"
| "dialectOfVal (LoadOp m idx) = MemRefDialect"
| "dialectOfVal (Operand x) = NotAnOperation"
| "dialectOfVal (InductionVar i) = NotAnOperation"
| "dialectOfVal (OpResult l i) = NotAnOperation"
| "dialectOfVal (LowerCoords l d) = NotAnOperation"

fun dialectOf :: "Op \<Rightarrow> Dialect" where
  "dialectOf (ValOp v) = dialectOfVal v"
| "dialectOf (StoreOp v m idx) = MemRefDialect"
| "dialectOf (AffineForOp i lb ub step body) = AffineDialect"
| "dialectOf (TransformingForOp i starts maps bounds strides forceUnroll indexDiffs body) =
     MIOpenDialect"
| "dialectOf (GpuAllocOp l ty) = MIOpenDialect"
| "dialectOf (ThreadwiseGemmOp a b c) = MIOpenDialect"
| "dialectOf (XdlopsGemmV2Op l x) = MIOpenDialect"
| "dialectOf (BufferStoreOp v m left right idx method) = MIOpenDialect"
| "dialectOf (Fill f) = MIOpenDialect"
| "dialectOf (BlockwiseGemm g) = MIOpenDialect"
| "dialectOf (BlockwiseGemmV2 g) = MIOpenDialect"
| "dialectOf (ThreadwiseCopyV2 c) = MIOpenDialect"
| "dialectOf (OtherOp name body) = OtherDialect name"

text \<open>An operation and everything nested in its regions.\<close>

fun allOps :: "Op \<Rightarrow> Op list" where
  "allOps (AffineForOp i lb ub step body) =
     AffineForOp i lb ub step body # concat (map allOps body)"
| "allOps (TransformingForOp i starts maps bounds strides forceUnroll indexDiffs body) =
     TransformingForOp i starts maps bounds strides forceUnroll indexDiffs body
       # concat (map allOps body)"
| "allOps (OtherOp name body) = OtherOp name body # concat (map allOps body)"
| "allOps x = [x]"

record ConversionTarget =
  illegalOps :: "Op \<Rightarrow> bool"
  legalDialects :: "Dialect list"

text \<open>
  \<^verbatim>\<open>target.addIllegalOp<FillOp, BlockwiseGemmOp, BlockwiseGemmV2Op, ThreadwiseCopyV2Op>()\<close>
  and \<^verbatim>\<open>target.addLegalDialect<...>()\<close>. A setting for one operation goes before the
  setting of its dialect.
\<close>

fun addIllegalOp :: "Op \<Rightarrow> bool" where
  "addIllegalOp (Fill f) = True"
| "addIllegalOp (BlockwiseGemm g) = True"
| "addIllegalOp (BlockwiseGemmV2 g) = True"
| "addIllegalOp (ThreadwiseCopyV2 c) = True"
| "addIllegalOp _ = False"

definition target :: ConversionTarget where
  "target =
     \<lparr> illegalOps = addIllegalOp,
       legalDialects =
         [ArithmeticDialect, MIOpenDialect, AffineDialect, MemRefDialect, VectorDialect] \<rparr>"

definition isLegal :: "ConversionTarget \<Rightarrow> Op \<Rightarrow> bool" where
  "isLegal t x = (\<not> illegalOps t x \<and> dialectOf x \<in> set (legalDialects t))"

text \<open>
  \<^verbatim>\<open>patterns.add<FillRewritePattern, BlockwiseGemmRewritePattern,
  BlockwiseGemmV2RewritePattern, ThreadwiseCopyV2RewritePattern>(ctx)\<close>: each pattern matches
  the operation of its kind; no pattern matches any other operation.
\<close>

fun patterns :: "selectFn \<Rightarrow> untransformFn \<Rightarrow> Op \<Rightarrow> error + RewriteResult" where
  "patterns get untransform (Fill f) = FillRewritePattern f"
| "patterns get untransform (BlockwiseGemm g) = BlockwiseGemmRewritePattern untransform g"
| "patterns get untransform (BlockwiseGemmV2 g) = BlockwiseGemmV2RewritePattern get g"
| "patterns get untransform (ThreadwiseCopyV2 c) = ThreadwiseCopyV2RewritePattern c"
| "patterns get untransform _ = Inr \<lparr> emitted = [], replacement = None, status = failure \<rparr>"

text \<open>
  Modelled from the spec: the conversion driver \<^verbatim>\<open>applyPartialConversion\<close> belongs to the
  IR framework and is outside the file under study. Per the spec it is a state machine over
  NotStarted, Rewriting, Converged and Failed that "drives pattern application until no
  illegal op remains (Converged) or a rule fails to match/apply (Failed)". One step of
  Rewriting takes the first illegal operation, in program order and through the regions, and
  applies the rule to it: the operations the rule created take its place, and the operation
  itself goes when the rule replaced it. A rule that aborts takes the process with it.
  Uses of the results of a replaced operation are not followed.
\<close>

datatype Outcome = NoIllegalOp | Rewritten "Op list" | RuleFailed | RuleAborted error

definition applyRule :: "(Op \<Rightarrow> error + RewriteResult) \<Rightarrow> Op \<Rightarrow> Outcome" where
  "applyRule rule x =
     (case rule x of
        Inl e \<Rightarrow> RuleAborted e
      | Inr r \<Rightarrow> (if status r = failure then RuleFailed
                  else Rewritten (emitted r @ (case replacement r of
                                                 None \<Rightarrow> [x]
                                               | Some vs \<Rightarrow> []))))"

fun rewriteOp :: "ConversionTarget \<Rightarrow> (Op \<Rightarrow> error + RewriteResult) \<Rightarrow> Op \<Rightarrow> Outcome"
  and rewriteOps :: "ConversionTarget \<Rightarrow> (Op \<Rightarrow> error + RewriteResult) \<Rightarrow> Op list \<Rightarrow> Outcome" where
  "rewriteOp t rule (AffineForOp i lb ub step body) =
     (if illegalOps t (AffineForOp i lb ub step body)
      then applyRule rule (AffineForOp i lb ub step body)
      else (case rewriteOps t rule body of
              Rewritten body' \<Rightarrow> Rewritten [AffineForOp i lb ub step body']
            | other \<Rightarrow> other))"
| "rewriteOp t rule (TransformingForOp i starts maps bounds strides forceUnroll indexDiffs body) =
     (if illegalOps t (TransformingForOp i starts maps bounds strides forceUnroll indexDiffs body)
      then applyRule rule
             (TransformingForOp i starts maps bounds strides forceUnroll indexDiffs body)
      else (case rewriteOps t rule body of
              Rewritten body' \<Rightarrow>
                Rewritten [TransformingForOp i starts maps bounds strides forceUnroll indexDiffs
                             body']
            | other \<Rightarrow> other))"
| "rewriteOp t rule (OtherOp name body) =
     (if illegalOps t (OtherOp name body) then applyRule rule (OtherOp name body)
      else (case rewriteOps t rule body of
              Rewritten body' \<Rightarrow> Rewritten [OtherOp name body']
            | other \<Rightarrow> other))"
| "rewriteOp t rule x = (if illegalOps t x then applyRule rule x else NoIllegalOp)"
| "rewriteOps t rule [] = NoIllegalOp"
| "rewriteOps t rule (x # xs) =
     (case rewriteOp t rule x of
        NoIllegalOp \<Rightarrow> (case rewriteOps t rule xs of
                          Rewritten xs' \<Rightarrow> Rewritten (x # xs')
                        | other \<Rightarrow> other)
      | Rewritten xs' \<Rightarrow> Rewritten (xs' @ xs)
      | other \<Rightarrow> other)"

datatype DriverState =
    NotStarted "Op list"
  | Rewriting "Op list"
  | Converged "Op list"
  | Failed
  | Crashed error

fun driverStep ::
  "ConversionTarget \<Rightarrow> (Op \<Rightarrow> error + RewriteResult) \<Rightarrow> DriverState \<Rightarrow> DriverState" where
  "driverStep t rule (NotStarted ir) = Rewriting ir"
| "driverStep t rule (Rewriting ir) =
     (case rewriteOps t rule ir of
        NoIllegalOp \<Rightarrow> Converged ir
      | Rewritten ir' \<Rightarrow> Rewriting ir'
      | RuleFailed \<Rightarrow> Failed
      | RuleAborted e \<Rightarrow> Crashed e)"
| "driverStep t rule s = s"

definition conversionDriver ::
  "nat \<Rightarrow> ConversionTarget \<Rightarrow> (Op \<Rightarrow> error + RewriteResult) \<Rightarrow> Op list \<Rightarrow> DriverState" where
  "conversionDriver fuel t rule ir = (driverStep t rule ^^ fuel) (NotStarted ir)"

text \<open>A converged state holds no illegal operation, regions included.\<close>

definition cleanState :: "ConversionTarget \<Rightarrow> DriverState \<Rightarrow> bool" where
  "cleanState t s =
     (case s of Converged ir \<Rightarrow> (\<forall>y\<in>set (concat (map allOps ir)). \<not> illegalOps t y)
              | _ \<Rightarrow> True)"

text \<open>
  \<^verbatim>\<open>runOnOperation\<close>: the target, the patterns, and
  \<^verbatim>\<open>if (failed(applyPartialConversion(...))) signalPassFailure()\<close>. The driver is a
  parameter; a driver that has not reached Converged or Failed has not returned.
\<close>

datatype PassResult =
    PassSucceeded "Op list"
  | PassFailureSignalled
  | ProcessAborted error
  | NotReturned

definition runOnOperation ::
  "(ConversionTarget \<Rightarrow> (Op \<Rightarrow> error + RewriteResult) \<Rightarrow> Op list \<Rightarrow> DriverState)
   \<Rightarrow> selectFn \<Rightarrow> untransformFn \<Rightarrow> Op list \<Rightarrow> PassResult" where
  "runOnOperation applyPartialConversion get untransform ir =
     (case applyPartialConversion target (patterns get untransform) ir of
        Failed \<Rightarrow> PassFailureSignalled
      | Converged ir' \<Rightarrow> PassSucceeded ir'
      | Crashed e \<Rightarrow> ProcessAborted e
      | NotStarted ir' \<Rightarrow> NotReturned
      | Rewriting ir' \<Rightarrow> NotReturned)"

text \<open>Operation kinds, for counting the operations of one kind that a pattern created.\<close>

fun isXdlopsGemmV2Op :: "Op \<Rightarrow> bool" where
  "isXdlopsGemmV2Op (XdlopsGemmV2Op l x) = True"
| "isXdlopsGemmV2Op _ = False"

fun isGpuAllocOp :: "Op \<Rightarrow> bool" where
  "isGpuAllocOp (GpuAllocOp l ty) = True"
| "isGpuAllocOp _ = False"

fun isAffineForOp :: "Op \<Rightarrow> bool" where
  "isAffineForOp (AffineForOp i lb ub step body) = True"
| "isAffineForOp _ = False"

section \<open>Example inputs\<close>

text \<open>Concrete operations and environments at which the theorems are instantiated.\<close>

definition exampleSelection :: XdlopsCodeSelection where
  "exampleSelection =
     \<lparr> instr = ''f32_32x32x1f32'', imms = [[1, 0, 0], [1, 1, 0]], argType = F32,
       num_threads_blk = 32, num_input_blks = 2, num_output_blks = 2, k_base = 1 \<rparr>"

definition exampleKReductionSelection :: XdlopsCodeSelection where
  "exampleKReductionSelection =
     \<lparr> instr = ''f32_32x32x2f32'', imms = [[0, 0, 0]], argType = F32,
       num_threads_blk = 32, num_input_blks = 2, num_output_blks = 1, k_base = 1 \<rparr>"

definition exampleGemmV2 :: BlockwiseGemmV2Op where
  "exampleGemmV2 =
     \<lparr> v2_matrixA = Operand ''ldsA'',
       v2_matrixAType = \<lparr> shape = [4096], elementType = F32, memorySpace = WorkgroupSpace \<rparr>,
       v2_matrixB = Operand ''ldsB'',
       v2_waveOffsetA = Operand ''waveOffsetA'',
       v2_waveOffsetB = Operand ''waveOffsetB'',
       v2_bufferA = Operand ''bufferA'',
       v2_bufferAType = \<lparr> shape = [8], elementType = F32, memorySpace = PrivateAddressSpace \<rparr>,
       v2_bufferB = Operand ''bufferB'',
       v2_bufferBType = \<lparr> shape = [4], elementType = F32, memorySpace = PrivateAddressSpace \<rparr>,
       v2_vectorCs = [Operand ''c0'', Operand ''c1'', Operand ''c2'', Operand ''c3''],
       v2_vectorDs = [VectorType [32] F32, VectorType [32] F32, VectorType [32] F32,
                      VectorType [32] F32],
       v2_ldsBufferOffsetA = 8,
       v2_ldsBufferOffsetB = 2048,
       v2_m = 128, v2_n = 64, v2_k = 4,
       v2_m_per_wave = 128, v2_n_per_wave = 64,
       v2_kpack = Some 4 \<rparr>"

definition exampleEnv :: Env where
  "exampleEnv =
     \<lparr> operands = (\<lambda>x. if x = ''waveOffsetA'' then 256 else if x = ''waveOffsetB'' then 64 else 0),
       ivs = (\<lambda>i. if i = Named ''outerLoopM'' then 1 else 3),
       workitemId = 70 \<rparr>"

definition exampleGemmV2TwoByTwo :: BlockwiseGemmV2Op where
  "exampleGemmV2TwoByTwo = exampleGemmV2 \<lparr> v2_n := 128, v2_n_per_wave := 128 \<rparr>"

definition exampleUntransform :: untransformFn where
  "exampleUntransform v transforms = (v, transforms)"

definition exampleGemmV2Misaligned :: BlockwiseGemmV2Op where
  "exampleGemmV2Misaligned = exampleGemmV2 \<lparr> v2_ldsBufferOffsetA := 6 \<rparr>"

definition exampleGemm :: BlockwiseGemmOp where
  "exampleGemm =
     \<lparr> bg_matrixA = Operand ''matrixA'',
       bg_matrixAType = \<lparr> shape = [8, 64, 2], elementType = F16, memorySpace = WorkgroupSpace \<rparr>,
       bg_matrixB = Operand ''matrixB'',
       bg_matrixBType = \<lparr> shape = [8, 64, 2], elementType = F16, memorySpace = WorkgroupSpace \<rparr>,
       bg_matrixC = Operand ''matrixC'',
       bg_matrixCType = \<lparr> shape = [4, 4], elementType = F32, memorySpace = PrivateAddressSpace \<rparr>,
       bg_threadOffsetA = Operand ''threadOffsetA'',
       bg_threadOffsetB = Operand ''threadOffsetB'',
       bg_kPerThread = 2,
       bg_mPerThread = 2,
       bg_nPerThread = 2,
       bg_mRepeatStride = 32,
       bg_nRepeatStride = 32 \<rparr>"

text \<open>The operations of a lowering that returned; none for one that aborted.\<close>

definition emittedOps :: "error + RewriteResult \<Rightarrow> Op list" where
  "emittedOps res = (case res of Inl e \<Rightarrow> [] | Inr r \<Rightarrow> emitted r)"

definition exampleFill :: FillOp where
  "exampleFill =
     \<lparr> fill_input = Operand ''buffer'',
       fill_inputType = \<lparr> shape = [2, 3], elementType = F32, memorySpace = PrivateAddressSpace \<rparr>,
       fill_value = Operand ''zero'' \<rparr>"

definition exampleCopy :: ThreadwiseCopyV2Op where
  "exampleCopy =
     \<lparr> tc_source = Operand ''src'',
       tc_sourceType = \<lparr> shape = [8], elementType = F32, memorySpace = PrivateAddressSpace \<rparr>,
       tc_sourceCoord = Operand ''i'',
       tc_dest = Operand ''dst'',
       tc_destType = \<lparr> shape = [16, 16], elementType = F32, memorySpace = DefaultSpace \<rparr>,
       tc_destCoord = [Operand ''x'', Operand ''y''],
       tc_length = 4,
       tc_leftOobDims = [],
       tc_rightOobDims = [1],
       tc_storeMethod = StoreSet \<rparr>"

definition exampleCopyMixed :: ThreadwiseCopyV2Op where
  "exampleCopyMixed =
     \<lparr> tc_source = Operand ''src'',
       tc_sourceType = \<lparr> shape = [8], elementType = F16, memorySpace = PrivateAddressSpace \<rparr>,
       tc_sourceCoord = Operand ''i'',
       tc_dest = Operand ''dst'',
       tc_destType = \<lparr> shape = [16], elementType = F32, memorySpace = DefaultSpace \<rparr>,
       tc_destCoord = [Operand ''x''],
       tc_length = 1,
       tc_leftOobDims = [],
       tc_rightOobDims = [],
       tc_storeMethod = StoreAtomicAdd \<rparr>"

section \<open>Theorems\<close>

subsection \<open>Fill\<close>

lemma iterations_unit: "iterations 0 s 1 = map int [0 ..< nat s]"
  by (simp add: iterations_def)

lemma eval_outer_iv:
  assumes "\<forall>p\<in>set pre. \<exists>j<d. p = InductionVar (Dim j)"
  shows "map (eval (E\<lparr>ivs := (ivs E)(Dim d := k)\<rparr>)) pre = map (eval E) pre"
  using assms by (induction pre) auto

lemma inductionVars_0: "inductionVars d 0 = []"
  by (simp add: inductionVars_def)

lemma inductionVars_Suc:
  "inductionVars d (Suc n) = InductionVar (Dim d) # inductionVars (Suc d) n"
proof -
  have "[d ..< Suc (d + n)] = d # [Suc d ..< Suc (d + n)]"
    by (rule upt_conv_Cons) simp
  then show ?thesis by (simp del: upt_Suc add: inductionVars_def)
qed

lemma buildAffineLoopNest_nested:
  "buildAffineLoopNest d (replicate (length sh) 0) sh (replicate (length sh) 1) body pre =
     Inr (nestedAffineLoop d sh (body (pre @ inductionVars d (length sh))))"
  by (induction sh arbitrary: d pre) (simp_all add: inductionVars_0 inductionVars_Suc)

lemma nest_accesses:
  assumes "\<forall>p\<in>set pre. \<exists>j<d. p = InductionVar (Dim j)"
  shows "concat (map (accesses E)
            (nestedAffineLoop d sh [StoreOp v m (pre @ inductionVars d (length sh))])) =
         map (\<lambda>c. Write m (map (eval E) pre @ map Some c) v) (coordinates sh)"
  using assms
proof (induction sh arbitrary: d pre E)
  case Nil
  then show ?case by (simp add: coordinates_def inductionVars_0)
next
  case (Cons s sh)
  have pre': "\<forall>p\<in>set (pre @ [InductionVar (Dim d)]). \<exists>j<Suc d. p = InductionVar (Dim j)"
    using Cons.prems by (auto intro: less_SucI)
  have step: "\<And>k. concat (map (accesses (E\<lparr>ivs := (ivs E)(Dim d := k)\<rparr>))
            (nestedAffineLoop (Suc d) sh
               [StoreOp v m (pre @ InductionVar (Dim d) # inductionVars (Suc d) (length sh))])) =
         map (\<lambda>c. Write m (map (eval E) pre @ Some k # map Some c) v) (coordinates sh)"
    using Cons.IH [OF pre', of "E\<lparr>ivs := (ivs E)(Dim d := k)\<rparr>" for k]
    by (simp add: eval_outer_iv [OF Cons.prems])
  show ?case
    by (simp add: step inductionVars_Suc iterations_unit map_concat comp_def)
       (simp add: coordinates_def map_concat comp_def)
qed

lemma in_row: "x \<in> int ` {0 ..< nat s} \<longleftrightarrow> 0 \<le> x \<and> x < s"
proof
  assume "x \<in> int ` {0 ..< nat s}"
  then obtain j where "x = int j" "j < nat s" by auto
  then show "0 \<le> x \<and> x < s" by auto
next
  assume "0 \<le> x \<and> x < s"
  then have "x = int (nat x)" "nat x < nat s" by auto
  then show "x \<in> int ` {0 ..< nat s}" by (metis atLeastLessThan_iff image_eqI zero_le)
qed

lemma set_coordinates:
  "set (coordinates sh) = {c. list_all2 (\<lambda>x extent. 0 \<le> x \<and> x < extent) c sh}"
proof (induction sh)
  case Nil
  then show ?case by (simp add: coordinates_def)
next
  case (Cons s sh)
  show ?case
  proof (rule set_eqI)
    fix c
    show "c \<in> set (coordinates (s # sh)) \<longleftrightarrow>
          c \<in> {c. list_all2 (\<lambda>x extent. 0 \<le> x \<and> x < extent) c (s # sh)}"
    proof (cases c)
      case Nil
      then show ?thesis by (auto simp: coordinates_def)
    next
      case (Cons a cs)
      have "a # cs \<in> set (coordinates (s # sh)) \<longleftrightarrow>
            a \<in> int ` {0 ..< nat s} \<and> cs \<in> set (coordinates sh)"
        by (auto simp: coordinates_def)
      then show ?thesis
        using Cons by (simp add: in_row Cons.IH)
    qed
  qed
qed

lemma distinct_coordinates: "distinct (coordinates sh)"
  unfolding coordinates_def
  by (rule distinct_product_lists) (auto simp: distinct_map inj_on_def)

text \<open>
  C8. For every fill operation the lowering creates a nest of affine loops, one per dimension
  of the input memref, each from 0 to the extent of its dimension in steps of 1, whose body
  stores the fill value into the input at the induction variables of the nest. Run, the nest
  performs one store per coordinate of the buffer, in row-major order: the coordinates are
  pairwise different and are exactly the index tuples inside the shape, so every coordinate
  is written the constant exactly once. The fill operation is erased with no results.
\<close>

theorem FillRewritePattern_stores_every_coordinate_once:
  "FillRewritePattern op =
     Inr \<lparr> emitted =
             nestedAffineLoop 0 (shape (fill_inputType op))
               [StoreOp (fill_value op) (fill_input op)
                  (inductionVars 0 (length (shape (fill_inputType op))))],
            replacement = Some [],
            status = success \<rparr> \<and>
   (\<forall>E. concat (map (accesses E)
           (nestedAffineLoop 0 (shape (fill_inputType op))
              [StoreOp (fill_value op) (fill_input op)
                 (inductionVars 0 (length (shape (fill_inputType op))))])) =
        map (\<lambda>c. Write (fill_input op) (map Some c) (fill_value op))
            (coordinates (shape (fill_inputType op)))) \<and>
   distinct (coordinates (shape (fill_inputType op))) \<and>
   set (coordinates (shape (fill_inputType op))) =
     {c. list_all2 (\<lambda>x extent. 0 \<le> x \<and> x < extent) c (shape (fill_inputType op))}"
proof -
  have built: "FillRewritePattern op =
     Inr \<lparr> emitted =
             nestedAffineLoop 0 (shape (fill_inputType op))
               [StoreOp (fill_value op) (fill_input op)
                  (inductionVars 0 (length (shape (fill_inputType op))))],
            replacement = Some [],
            status = success \<rparr>"
    using buildAffineLoopNest_nested
            [of 0 "shape (fill_inputType op)"
                "\<lambda>ivs. [StoreOp (fill_value op) (fill_input op) ivs]" "[]"]
    by (simp add: FillRewritePattern_def Let_def)
  have run: "\<And>E. concat (map (accesses E)
           (nestedAffineLoop 0 (shape (fill_inputType op))
              [StoreOp (fill_value op) (fill_input op)
                 (inductionVars 0 (length (shape (fill_inputType op))))])) =
        map (\<lambda>c. Write (fill_input op) (map Some c) (fill_value op))
            (coordinates (shape (fill_inputType op)))"
    using nest_accesses [of "[]" 0 _ "shape (fill_inputType op)" "fill_value op" "fill_input op"]
    by simp
  show ?thesis
    using built run distinct_coordinates set_coordinates by blast
qed

theorem FillRewritePattern_stores_every_coordinate_once_witness:
  "FillRewritePattern
     \<lparr> fill_input = Operand ''buffer'',
       fill_inputType = \<lparr> shape = [2, 3], elementType = F32, memorySpace = PrivateAddressSpace \<rparr>,
       fill_value = Operand ''zero'' \<rparr> =
   Inr \<lparr> emitted =
           [AffineForOp (Dim 0) 0 2 1
              [AffineForOp (Dim 1) 0 3 1
                 [StoreOp (Operand ''zero'') (Operand ''buffer'')
                    [InductionVar (Dim 0), InductionVar (Dim 1)]]]],
          replacement = Some [],
          status = success \<rparr> \<and>
   accesses \<lparr> operands = (\<lambda>x. 0), ivs = (\<lambda>i. 0), workitemId = 0 \<rparr>
     (AffineForOp (Dim 0) 0 2 1
        [AffineForOp (Dim 1) 0 3 1
           [StoreOp (Operand ''zero'') (Operand ''buffer'')
              [InductionVar (Dim 0), InductionVar (Dim 1)]]]) =
     [Write (Operand ''buffer'') [Some 0, Some 0] (Operand ''zero''),
      Write (Operand ''buffer'') [Some 0, Some 1] (Operand ''zero''),
      Write (Operand ''buffer'') [Some 0, Some 2] (Operand ''zero''),
      Write (Operand ''buffer'') [Some 1, Some 0] (Operand ''zero''),
      Write (Operand ''buffer'') [Some 1, Some 1] (Operand ''zero''),
      Write (Operand ''buffer'') [Some 1, Some 2] (Operand ''zero'')] \<and>
   distinct (coordinates [2, 3])"
proof -
  have vars: "inductionVars 0 (Suc (Suc 0)) = [InductionVar (Dim 0), InductionVar (Dim (Suc 0))]"
    by (simp add: inductionVars_def upt_conv_Cons)
  have coords: "coordinates [2, 3] = [[0, 0], [0, 1], [0, 2], [1, 0], [1, 1], [1, 2]]"
    by (simp add: coordinates_def upt_conv_Cons)
  show ?thesis
    using FillRewritePattern_stores_every_coordinate_once
      [of "\<lparr> fill_input = Operand ''buffer'',
             fill_inputType =
               \<lparr> shape = [2, 3], elementType = F32, memorySpace = PrivateAddressSpace \<rparr>,
             fill_value = Operand ''zero'' \<rparr>"]
    by (simp add: vars coords del: accesses.simps)
qed

subsection \<open>ThreadwiseCopyV2\<close>

text \<open>
  C9. For every threadwise_copy_v2 operation of length L the lowering creates exactly two
  operations and no other: first one in-bounds load from the source at sourceCoord, whose
  result has L elements (a vector of L elements of the source's element type when L > 1),
  then one buffer store of the loaded value to the destination at destCoord, which carries
  the left and right out-of-bounds dimensions and the store method of the operation. The
  store replaces the operation and the pattern succeeds.
\<close>

theorem ThreadwiseCopyV2_emits_load_then_store:
  "ThreadwiseCopyV2RewritePattern op =
     Inr \<lparr> emitted =
             [ValOp (InBoundsLoadOp
                       (if tc_length op > 1
                        then VectorType [tc_length op] (elementType (tc_sourceType op))
                        else elementType (tc_sourceType op))
                       (tc_source op) [tc_sourceCoord op]),
              BufferStoreOp
                (InBoundsLoadOp
                       (if tc_length op > 1
                        then VectorType [tc_length op] (elementType (tc_sourceType op))
                        else elementType (tc_sourceType op))
                       (tc_source op) [tc_sourceCoord op])
                (tc_dest op) (tc_leftOobDims op) (tc_rightOobDims op) (tc_destCoord op)
                (tc_storeMethod op)],
            replacement = Some [],
            status = success \<rparr>"
  by (simp add: ThreadwiseCopyV2RewritePattern_def typeToLoad_def Let_def)

theorem ThreadwiseCopyV2_emits_load_then_store_witness:
  "ThreadwiseCopyV2RewritePattern
     \<lparr> tc_source = Operand ''src'',
       tc_sourceType = \<lparr> shape = [8], elementType = F32, memorySpace = PrivateAddressSpace \<rparr>,
       tc_sourceCoord = Operand ''i'',
       tc_dest = Operand ''dst'',
       tc_destType = \<lparr> shape = [16, 16], elementType = F32, memorySpace = DefaultSpace \<rparr>,
       tc_destCoord = [Operand ''x'', Operand ''y''],
       tc_length = 4,
       tc_leftOobDims = [],
       tc_rightOobDims = [1],
       tc_storeMethod = StoreSet \<rparr> =
   Inr \<lparr> emitted =
           [ValOp (InBoundsLoadOp (VectorType [4] F32) (Operand ''src'') [Operand ''i'']),
            BufferStoreOp (InBoundsLoadOp (VectorType [4] F32) (Operand ''src'') [Operand ''i''])
              (Operand ''dst'') [] [1] [Operand ''x'', Operand ''y''] StoreSet],
          replacement = Some [],
          status = success \<rparr>"
  using ThreadwiseCopyV2_emits_load_then_store
    [of "\<lparr> tc_source = Operand ''src'',
       tc_sourceType = \<lparr> shape = [8], elementType = F32, memorySpace = PrivateAddressSpace \<rparr>,
       tc_sourceCoord = Operand ''i'',
       tc_dest = Operand ''dst'',
       tc_destType = \<lparr> shape = [16, 16], elementType = F32, memorySpace = DefaultSpace \<rparr>,
       tc_destCoord = [Operand ''x'', Operand ''y''],
       tc_length = 4,
       tc_leftOobDims = [],
       tc_rightOobDims = [1],
       tc_storeMethod = StoreSet \<rparr>"]
  by simp

text \<open>
  The choice between scalar and vector: the load, and with it the value the buffer store
  writes, has the type \<open>typeToLoad\<close>, which is the element type of the source memref
  unless the length is above 1, and a vector of that many elements then. Where the two
  memrefs have the same element type, this is also the type \<open>typeToStore\<close>.
\<close>

lemma ThreadwiseCopyV2_load_type:
  "ThreadwiseCopyV2RewritePattern op =
     Inr \<lparr> emitted =
             [ValOp (InBoundsLoadOp (typeToLoad op) (tc_source op) [tc_sourceCoord op]),
              BufferStoreOp (InBoundsLoadOp (typeToLoad op) (tc_source op) [tc_sourceCoord op])
                (tc_dest op) (tc_leftOobDims op) (tc_rightOobDims op) (tc_destCoord op)
                (tc_storeMethod op)],
            replacement = Some [], status = success \<rparr> \<and>
   resultType (InBoundsLoadOp (typeToLoad op) (tc_source op) [tc_sourceCoord op]) =
     Some (typeToLoad op) \<and>
   storedValueType
     (BufferStoreOp (InBoundsLoadOp (typeToLoad op) (tc_source op) [tc_sourceCoord op])
        (tc_dest op) (tc_leftOobDims op) (tc_rightOobDims op) (tc_destCoord op)
        (tc_storeMethod op)) = Some (typeToLoad op) \<and>
   (tc_length op = 1 \<longrightarrow> typeToLoad op = elementType (tc_sourceType op)) \<and>
   (tc_length op > 1 \<longrightarrow>
      typeToLoad op = VectorType [tc_length op] (elementType (tc_sourceType op))) \<and>
   (\<not> tc_length op > 1 \<longrightarrow> typeToLoad op = elementType (tc_sourceType op)) \<and>
   (elementType (tc_sourceType op) = elementType (tc_destType op) \<longrightarrow>
      typeToLoad op = typeToStore op)"
  by (simp add: ThreadwiseCopyV2RewritePattern_def typeToLoad_def typeToStore_def Let_def)

text \<open>
  C10, at a threadwise_copy_v2 of length 1 from a memref of f16 to a memref of f32. The
  pattern computes the store type f32, the scalar element type of the destination, and hands
  it to no operation: it creates a load of the scalar type f16 and a buffer store of the
  loaded value, with no conversion between them. The value the created store writes has type
  f16 and not the element type of the destination.
\<close>

theorem ThreadwiseCopyV2_store_type_dropped:
  "tc_length exampleCopyMixed = 1 \<and>
   typeToLoad exampleCopyMixed = F16 \<and>
   typeToStore exampleCopyMixed = F32 \<and>
   ThreadwiseCopyV2RewritePattern exampleCopyMixed =
     Inr \<lparr> emitted =
             [ValOp (InBoundsLoadOp F16 (Operand ''src'') [Operand ''i'']),
              BufferStoreOp (InBoundsLoadOp F16 (Operand ''src'') [Operand ''i''])
                (Operand ''dst'') [] [] [Operand ''x''] StoreAtomicAdd],
            replacement = Some [], status = success \<rparr> \<and>
   storedValueType (last (emittedOps (ThreadwiseCopyV2RewritePattern exampleCopyMixed))) =
     Some F16 \<and>
   storedValueType (last (emittedOps (ThreadwiseCopyV2RewritePattern exampleCopyMixed))) \<noteq>
     Some (elementType (tc_destType exampleCopyMixed))"
  by (simp add: ThreadwiseCopyV2RewritePattern_def typeToLoad_def typeToStore_def
        emittedOps_def Let_def exampleCopyMixed_def)

subsection \<open>BlockwiseGemmV2\<close>

lemma staging_no_xdlops:
  "filter isXdlopsGemmV2Op (concat (map allOps (staging op xcs))) = []"
  by (simp add: staging_def outerLoopM_def outerLoopN_def loopKLoad_def loadKReduction_def
        timesKPackOps_def Let_def)

lemma BlockwiseGemmV2_success:
  assumes "BlockwiseGemmV2RewritePattern get op = Inr r"
    and "get (elementType (v2_matrixAType op)) (v2_m_per_wave op) (v2_n_per_wave op) = Inr xcs"
  shows "\<exists>gemms replaced.
     xdlopsGemms op xcs = Inr (gemms, replaced) \<and>
     KPack op \<noteq> 0 \<and>
     v2_ldsBufferOffsetA op smod KPack op = 0 \<and>
     v2_ldsBufferOffsetB op smod KPack op = 0 \<and>
     r = \<lparr> emitted =
              [ValOp (ConstantIndexOp (v2_ldsBufferOffsetA op sdiv KPack op)),
               ValOp (aBase op),
               ValOp (ConstantIndexOp (v2_ldsBufferOffsetB op sdiv KPack op)),
               ValOp (bBase op),
               ValOp WorkitemIdOp,
               ValOp (ConstantIndexOp waveSize),
               ValOp laneId,
               ValOp (ConstantIndexOp (v2_m op)),
               ValOp (ConstantIndexOp (v2_n op)),
               ValOp (ConstantIndexOp (v2_k op)),
               ValOp (ConstantIndexOp (MPerXdlops op)),
               ValOp (ConstantIndexOp (NPerXdlops op)),
               ValOp (ConstantIndexOp 0),
               ValOp (ConstantIndexOp (KPerThread op xcs))]
              @ staging op xcs @ gemms,
            replacement = replaced,
            status = success \<rparr>"
  using assms
  by (auto simp: BlockwiseGemmV2RewritePattern_def Let_def bindE_def
           split: if_splits sum.splits prod.splits)

lemma twoXdlopsGemms_result:
  assumes "twoXdlopsGemms op regOffsetA1 regOffsetB1 = Inr (gemms, replaced)"
  shows "gemms =
      [XdlopsGemmV2Op (Named ''xdlopsGemmV2Op0'')
         (xdlopsGemmV2 op [v2_vectorDs op ! 0, v2_vectorDs op ! 1]
            (ConstantIndexOp 0) (ConstantIndexOp 0) (take 2 (v2_vectorCs op)) 64 64),
       XdlopsGemmV2Op (Named ''xdlopsGemmV2Op1'')
         (xdlopsGemmV2 op [v2_vectorDs op ! 2, v2_vectorDs op ! 3]
            regOffsetA1 regOffsetB1 (drop 2 (v2_vectorCs op)) 64 64)] \<and>
    replaced =
      Some [OpResult (Named ''xdlopsGemmV2Op0'') 0, OpResult (Named ''xdlopsGemmV2Op0'') 1,
            OpResult (Named ''xdlopsGemmV2Op1'') 0, OpResult (Named ''xdlopsGemmV2Op1'') 1]"
  using assms
  by (auto simp: twoXdlopsGemms_def Let_def bindE_def vectorD_def drop_front_def
           split: if_splits)

text \<open>
  C1. For a blockwise_gemm_v2 operation with m_per_wave = 128 and n_per_wave = 64 that the
  pattern lowers (no assertion fails and the instruction lookup returns), MRepeats = 2,
  NRepeats = 1, MPerXdlops = 64 and NPerXdlops = 64; the created operations hold exactly two
  xdlops_gemm_v2 operations, the first with register offsets 0 and 0, the second with register
  offset KPerThread into the A buffer and 0 into the B buffer, each with m_per_wave = 64 and
  n_per_wave = 64; and the results of the original operation are replaced by the two results
  of the first followed by the two results of the second.
\<close>

theorem BlockwiseGemmV2_two_gemms_when_M_repeats:
  assumes "v2_m_per_wave op = 128" and "v2_n_per_wave op = 64"
    and "get (elementType (v2_matrixAType op)) 128 64 = Inr xcs"
    and "BlockwiseGemmV2RewritePattern get op = Inr r"
  shows "MRepeats op = 2 \<and> NRepeats op = 1 \<and> MPerXdlops op = 64 \<and> NPerXdlops op = 64 \<and>
    filter isXdlopsGemmV2Op (concat (map allOps (emitted r))) =
      [XdlopsGemmV2Op (Named ''xdlopsGemmV2Op0'')
         (xdlopsGemmV2 op [v2_vectorDs op ! 0, v2_vectorDs op ! 1]
            (ConstantIndexOp 0) (ConstantIndexOp 0) (take 2 (v2_vectorCs op)) 64 64),
       XdlopsGemmV2Op (Named ''xdlopsGemmV2Op1'')
         (xdlopsGemmV2 op [v2_vectorDs op ! 2, v2_vectorDs op ! 3]
            (ConstantIndexOp (KPerThread op xcs)) (ConstantIndexOp 0)
            (drop 2 (v2_vectorCs op)) 64 64)] \<and>
    map (\<lambda>x. (x_regOffsetA x, x_regOffsetB x, x_m_per_wave x, x_n_per_wave x))
      [xdlopsGemmV2 op [v2_vectorDs op ! 0, v2_vectorDs op ! 1]
         (ConstantIndexOp 0) (ConstantIndexOp 0) (take 2 (v2_vectorCs op)) 64 64,
       xdlopsGemmV2 op [v2_vectorDs op ! 2, v2_vectorDs op ! 3]
         (ConstantIndexOp (KPerThread op xcs)) (ConstantIndexOp 0)
         (drop 2 (v2_vectorCs op)) 64 64] =
      [(ConstantIndexOp 0, ConstantIndexOp 0, 64, 64),
       (ConstantIndexOp (KPerThread op xcs), ConstantIndexOp 0, 64, 64)] \<and>
    replacement r =
      Some [OpResult (Named ''xdlopsGemmV2Op0'') 0, OpResult (Named ''xdlopsGemmV2Op0'') 1,
            OpResult (Named ''xdlopsGemmV2Op1'') 0, OpResult (Named ''xdlopsGemmV2Op1'') 1] \<and>
    status r = success"
proof -
  have reps: "MRepeats op = 2" "NRepeats op = 1" "MPerXdlops op = 64" "NPerXdlops op = 64"
    using assms(1,2)
    by (simp_all add: MRepeats_def NRepeats_def MPerXdlops_def NPerXdlops_def
          signed_divide_int_def)
  from BlockwiseGemmV2_success [OF assms(4)] assms(1,2,3)
  obtain gemms replaced where
    g: "xdlopsGemms op xcs = Inr (gemms, replaced)"
    and r: "r = \<lparr> emitted =
              [ValOp (ConstantIndexOp (v2_ldsBufferOffsetA op sdiv KPack op)),
               ValOp (aBase op),
               ValOp (ConstantIndexOp (v2_ldsBufferOffsetB op sdiv KPack op)),
               ValOp (bBase op),
               ValOp WorkitemIdOp,
               ValOp (ConstantIndexOp waveSize),
               ValOp laneId,
               ValOp (ConstantIndexOp (v2_m op)),
               ValOp (ConstantIndexOp (v2_n op)),
               ValOp (ConstantIndexOp (v2_k op)),
               ValOp (ConstantIndexOp (MPerXdlops op)),
               ValOp (ConstantIndexOp (NPerXdlops op)),
               ValOp (ConstantIndexOp 0),
               ValOp (ConstantIndexOp (KPerThread op xcs))]
              @ staging op xcs @ gemms,
            replacement = replaced,
            status = success \<rparr>"
    by auto
  have two: "twoXdlopsGemms op (ConstantIndexOp (KPerThread op xcs)) (ConstantIndexOp 0) =
               Inr (gemms, replaced)"
    using g reps by (simp add: xdlopsGemms_def Let_def)
  note res = twoXdlopsGemms_result [OF two]
  have "filter isXdlopsGemmV2Op (concat (map allOps (emitted r))) = gemms"
    by (simp add: r staging_no_xdlops res)
  then show ?thesis
    using reps res r by (simp add: xdlopsGemmV2_def)
qed

theorem BlockwiseGemmV2_two_gemms_when_M_repeats_witness:
  "v2_m_per_wave exampleGemmV2 = 128 \<and> v2_n_per_wave exampleGemmV2 = 64 \<and>
   (\<exists>r. BlockwiseGemmV2RewritePattern (\<lambda>ty m n. Inr exampleSelection) exampleGemmV2 = Inr r \<and>
        filter isXdlopsGemmV2Op (concat (map allOps (emitted r))) =
          [XdlopsGemmV2Op (Named ''xdlopsGemmV2Op0'')
             (xdlopsGemmV2 exampleGemmV2 [VectorType [32] F32, VectorType [32] F32]
                (ConstantIndexOp 0) (ConstantIndexOp 0) [Operand ''c0'', Operand ''c1''] 64 64),
           XdlopsGemmV2Op (Named ''xdlopsGemmV2Op1'')
             (xdlopsGemmV2 exampleGemmV2 [VectorType [32] F32, VectorType [32] F32]
                (ConstantIndexOp 4) (ConstantIndexOp 0) [Operand ''c2'', Operand ''c3''] 64 64)] \<and>
        replacement r =
          Some [OpResult (Named ''xdlopsGemmV2Op0'') 0, OpResult (Named ''xdlopsGemmV2Op0'') 1,
                OpResult (Named ''xdlopsGemmV2Op1'') 0, OpResult (Named ''xdlopsGemmV2Op1'') 1])"
proof -
  have m: "v2_m_per_wave exampleGemmV2 = 128" and n: "v2_n_per_wave exampleGemmV2 = 64"
    by (simp_all add: exampleGemmV2_def)
  have sel: "(\<lambda>ty m n. Inr exampleSelection) (elementType (v2_matrixAType exampleGemmV2)) 128 64 =
             Inr exampleSelection"
    by simp
  have k: "KPerThread exampleGemmV2 exampleSelection = 4"
    by (simp add: KPerThread_def IsKReduction_def exampleSelection_def exampleGemmV2_def)
  have "\<exists>r. BlockwiseGemmV2RewritePattern (\<lambda>ty m n. Inr exampleSelection) exampleGemmV2 = Inr r"
    by (simp add: BlockwiseGemmV2RewritePattern_def Let_def bindE_def KPack_def
          xdlopsGemms_def twoXdlopsGemms_def vectorD_def drop_front_def MRepeats_def
          NRepeats_def signed_divide_int_def signed_modulo_int_def exampleGemmV2_def
          exampleSelection_def)
  then obtain r where
    r: "BlockwiseGemmV2RewritePattern (\<lambda>ty m n. Inr exampleSelection) exampleGemmV2 = Inr r"
    by blast
  have cs: "take 2 (v2_vectorCs exampleGemmV2) = [Operand ''c0'', Operand ''c1'']"
    "drop 2 (v2_vectorCs exampleGemmV2) = [Operand ''c2'', Operand ''c3'']"
    "v2_vectorDs exampleGemmV2 ! 0 = VectorType [32] F32"
    "v2_vectorDs exampleGemmV2 ! Suc 0 = VectorType [32] F32"
    "v2_vectorDs exampleGemmV2 ! 2 = VectorType [32] F32"
    "v2_vectorDs exampleGemmV2 ! 3 = VectorType [32] F32"
    by (simp_all add: exampleGemmV2_def)
  show ?thesis
    using BlockwiseGemmV2_two_gemms_when_M_repeats [OF m n sel r] r m n
    by (auto simp: k cs)
qed

lemma BlockwiseGemmV2_unsupported_repeats_fall_through:
  assumes "BlockwiseGemmV2RewritePattern get op = Inr r"
    and "\<not> (MRepeats op = 1 \<and> NRepeats op = 1)"
    and "\<not> (MRepeats op = 2 \<and> NRepeats op = 1)"
    and "\<not> (MRepeats op = 1 \<and> NRepeats op = 2)"
  shows "replacement r = None \<and> status r = success \<and>
         filter isXdlopsGemmV2Op (concat (map allOps (emitted r))) = []"
proof -
  obtain xcs where
    xcs: "get (elementType (v2_matrixAType op)) (v2_m_per_wave op) (v2_n_per_wave op) = Inr xcs"
    using assms(1)
    by (auto simp: BlockwiseGemmV2RewritePattern_def Let_def bindE_def
             split: if_splits sum.splits)
  from BlockwiseGemmV2_success [OF assms(1) xcs] assms(2,3,4)
  show ?thesis
    by (auto simp: xdlopsGemms_def Let_def staging_no_xdlops)
qed

text \<open>
  C2, at an operation with m_per_wave = 128 and n_per_wave = 128, for which the instruction
  lookup returns: MRepeats = 2 and NRepeats = 2, no branch of the pattern handles the pair,
  and the pattern returns success. It has created the staging loops, no xdlops_gemm_v2, and
  has not replaced the operation: after one rewriting step of the driver the operations it
  created stand in the IR in front of the untouched blockwise_gemm_v2.
\<close>

theorem BlockwiseGemmV2_two_by_two_falls_through:
  "MRepeats exampleGemmV2TwoByTwo = 2 \<and> NRepeats exampleGemmV2TwoByTwo = 2 \<and>
   (\<exists>r. BlockwiseGemmV2RewritePattern (\<lambda>ty m n. Inr exampleSelection) exampleGemmV2TwoByTwo =
          Inr r \<and>
        status r = success \<and>
        replacement r = None \<and>
        filter isXdlopsGemmV2Op (concat (map allOps (emitted r))) = [] \<and>
        filter isAffineForOp (emitted r) =
          [outerLoopM exampleGemmV2TwoByTwo exampleSelection,
           outerLoopN exampleGemmV2TwoByTwo exampleSelection] \<and>
        conversionDriver 2 target (patterns (\<lambda>ty m n. Inr exampleSelection) exampleUntransform)
          [BlockwiseGemmV2 exampleGemmV2TwoByTwo] =
          Rewriting (emitted r @ [BlockwiseGemmV2 exampleGemmV2TwoByTwo]))"
proof -
  have reps: "MRepeats exampleGemmV2TwoByTwo = 2" "NRepeats exampleGemmV2TwoByTwo = 2"
    by (simp_all add: MRepeats_def NRepeats_def exampleGemmV2TwoByTwo_def exampleGemmV2_def
          signed_divide_int_def)
  have kred: "\<not> IsKReduction exampleSelection"
    by (simp add: IsKReduction_def exampleSelection_def)
  have run: "BlockwiseGemmV2RewritePattern (\<lambda>ty m n. Inr exampleSelection) exampleGemmV2TwoByTwo =
     Inr \<lparr> emitted =
              [ValOp (ConstantIndexOp (v2_ldsBufferOffsetA exampleGemmV2TwoByTwo sdiv KPack exampleGemmV2TwoByTwo)),
               ValOp (aBase exampleGemmV2TwoByTwo),
               ValOp (ConstantIndexOp (v2_ldsBufferOffsetB exampleGemmV2TwoByTwo sdiv KPack exampleGemmV2TwoByTwo)),
               ValOp (bBase exampleGemmV2TwoByTwo),
               ValOp WorkitemIdOp,
               ValOp (ConstantIndexOp waveSize),
               ValOp laneId,
               ValOp (ConstantIndexOp (v2_m exampleGemmV2TwoByTwo)),
               ValOp (ConstantIndexOp (v2_n exampleGemmV2TwoByTwo)),
               ValOp (ConstantIndexOp (v2_k exampleGemmV2TwoByTwo)),
               ValOp (ConstantIndexOp (MPerXdlops exampleGemmV2TwoByTwo)),
               ValOp (ConstantIndexOp (NPerXdlops exampleGemmV2TwoByTwo)),
               ValOp (ConstantIndexOp 0),
               ValOp (ConstantIndexOp (KPerThread exampleGemmV2TwoByTwo exampleSelection))]
              @ staging exampleGemmV2TwoByTwo exampleSelection @ [],
            replacement = None,
            status = success \<rparr>"
    unfolding BlockwiseGemmV2RewritePattern_def Let_def bindE_def xdlopsGemms_def reps
    by (simp add: KPack_def signed_modulo_int_def exampleGemmV2TwoByTwo_def exampleGemmV2_def
          exampleSelection_def)
  have drv: "\<And>r. BlockwiseGemmV2RewritePattern (\<lambda>ty m n. Inr exampleSelection)
                 exampleGemmV2TwoByTwo = Inr r \<Longrightarrow> status r = success \<Longrightarrow>
               replacement r = None \<Longrightarrow>
          conversionDriver 2 target (patterns (\<lambda>ty m n. Inr exampleSelection) exampleUntransform)
            [BlockwiseGemmV2 exampleGemmV2TwoByTwo] =
          Rewriting (emitted r @ [BlockwiseGemmV2 exampleGemmV2TwoByTwo])"
    by (simp add: conversionDriver_def numeral_2_eq_2 target_def applyRule_def)
  have loops: "isAffineForOp (outerLoopM exampleGemmV2TwoByTwo exampleSelection)"
    "isAffineForOp (outerLoopN exampleGemmV2TwoByTwo exampleSelection)"
    by (simp_all add: outerLoopM_def outerLoopN_def Let_def)
  have stage: "staging exampleGemmV2TwoByTwo exampleSelection =
     [outerLoopM exampleGemmV2TwoByTwo exampleSelection,
      outerLoopN exampleGemmV2TwoByTwo exampleSelection]"
    by (simp add: staging_def kred)
  have none: "filter isXdlopsGemmV2Op
                (allOps (outerLoopM exampleGemmV2TwoByTwo exampleSelection)) = []"
    "filter isXdlopsGemmV2Op
                (allOps (outerLoopN exampleGemmV2TwoByTwo exampleSelection)) = []"
    using staging_no_xdlops [of exampleGemmV2TwoByTwo exampleSelection]
    by (simp_all add: stage)
  show ?thesis
    using reps drv [OF run]
    by (simp add: run stage loops none)
qed

lemma sdiv_times_exact:
  fixes l K :: int
  assumes "l smod K = 0"
  shows "(l sdiv K) * K = l"
  using sdiv_mult_smod_eq [of l K] assms by simp

lemma eval_laneId:
  "0 \<le> workitemId E \<Longrightarrow> eval E laneId = Some (workitemId E mod 64)"
  by (simp add: laneId_def waveSize_def binop_def)

lemma eval_aBase:
  "eval E (v2_waveOffsetA op) = Some wA \<Longrightarrow>
   eval E (aBase op) = Some (wA + v2_ldsBufferOffsetA op sdiv KPack op)"
  by (simp add: aBase_def binop_def)

lemma eval_bBase:
  "eval E (v2_waveOffsetB op) = Some wB \<Longrightarrow>
   eval E (bBase op) = Some (wB + v2_ldsBufferOffsetB op sdiv KPack op)"
  by (simp add: bBase_def binop_def)

lemma eval_sourceOffsetA:
  assumes "eval E (v2_waveOffsetA op) = Some wA" and "0 \<le> workitemId E"
    and "0 < KPack op" and "v2_ldsBufferOffsetA op smod KPack op = 0"
  shows "eval E (timesKPack op (sourceOffsetA op)) =
     Some ((ivs E (Named ''innerLoopMK'') * v2_m op + workitemId E mod 64
              + MPerXdlops op * ivs E (Named ''outerLoopM'')) * KPack op
           + (wA * KPack op + v2_ldsBufferOffsetA op))"
proof -
  have base: "eval E (sourceOffsetA op) =
     Some (ivs E (Named ''innerLoopMK'') * v2_m op + workitemId E mod 64
           + (wA + v2_ldsBufferOffsetA op sdiv KPack op
              + MPerXdlops op * ivs E (Named ''outerLoopM'')))"
    using assms(1,2)
    by (simp add: sourceOffsetA_def mOffset_def eval_laneId eval_aBase binop_def)
  have exact: "(v2_ldsBufferOffsetA op sdiv KPack op) * KPack op = v2_ldsBufferOffsetA op"
    using assms(4) by (rule sdiv_times_exact)
  show ?thesis
  proof (cases "KPack op > 1")
    case True
    then show ?thesis
      using base exact by (simp add: timesKPack_def binop_def algebra_simps)
  next
    case False
    with assms(3) have "KPack op = 1" by simp
    then show ?thesis
      using base by (simp add: timesKPack_def algebra_simps)
  qed
qed

lemma load_in_outerLoopM:
  "ValOp (InBoundsLoadOp (elementType (v2_bufferAType op)) (v2_matrixA op)
            [timesKPack op (sourceOffsetA op)])
     \<in> set (allOps (outerLoopM op xcs))"
  by (simp add: outerLoopM_def Let_def)

text \<open>
  C3. For a blockwise_gemm_v2 operation with a positive KPack: when ldsOffsetA is not a
  multiple of KPack the lowering aborts on the assertion for A, and when ldsOffsetA is but
  ldsOffsetB is not, on the assertion for B. When the lowering returns, both offsets are
  multiples of KPack, the first operations created are the constant ldsOffsetA / KPack and
  the base address waveOffsetA + ldsOffsetA / KPack (likewise for B), and the source offset
  of the load of A in the staging loops, after its multiplication by KPack, evaluates to
  (k_i * M + laneId + MPerXdlops * m_i) * KPack + (waveOffsetA * KPack + ldsOffsetA): the
  division is undone exactly.
\<close>

theorem BlockwiseGemmV2_lds_offset_round_trip:
  assumes "0 < KPack op"
  shows
   "(v2_ldsBufferOffsetA op smod KPack op \<noteq> 0 \<longrightarrow>
       BlockwiseGemmV2RewritePattern get op =
         Inl (AssertionFailure ''LDS buffer segment for A is kpack-aligned'')) \<and>
    (v2_ldsBufferOffsetA op smod KPack op = 0 \<and> v2_ldsBufferOffsetB op smod KPack op \<noteq> 0 \<longrightarrow>
       BlockwiseGemmV2RewritePattern get op =
         Inl (AssertionFailure ''LDS buffer segment for B is kpack-aligned'')) \<and>
    (\<forall>r. BlockwiseGemmV2RewritePattern get op = Inr r \<longrightarrow>
       v2_ldsBufferOffsetA op smod KPack op = 0 \<and>
       v2_ldsBufferOffsetB op smod KPack op = 0 \<and>
       take 4 (emitted r) =
         [ValOp (ConstantIndexOp (v2_ldsBufferOffsetA op sdiv KPack op)),
          ValOp (AddIOp (v2_waveOffsetA op)
                   (ConstantIndexOp (v2_ldsBufferOffsetA op sdiv KPack op))),
          ValOp (ConstantIndexOp (v2_ldsBufferOffsetB op sdiv KPack op)),
          ValOp (AddIOp (v2_waveOffsetB op)
                   (ConstantIndexOp (v2_ldsBufferOffsetB op sdiv KPack op)))] \<and>
       (\<forall>xcs. get (elementType (v2_matrixAType op)) (v2_m_per_wave op) (v2_n_per_wave op) =
                 Inr xcs \<and> \<not> IsKReduction xcs \<longrightarrow>
          ValOp (InBoundsLoadOp (elementType (v2_bufferAType op)) (v2_matrixA op)
                   [timesKPack op (sourceOffsetA op)])
            \<in> set (concat (map allOps (emitted r)))) \<and>
       (\<forall>E wA. eval E (v2_waveOffsetA op) = Some wA \<and> 0 \<le> workitemId E \<longrightarrow>
          eval E (AddIOp (v2_waveOffsetA op)
                    (ConstantIndexOp (v2_ldsBufferOffsetA op sdiv KPack op))) =
            Some (wA + v2_ldsBufferOffsetA op sdiv KPack op) \<and>
          eval E (timesKPack op (sourceOffsetA op)) =
            Some ((ivs E (Named ''innerLoopMK'') * v2_m op + workitemId E mod 64
                     + MPerXdlops op * ivs E (Named ''outerLoopM'')) * KPack op
                  + (wA * KPack op + v2_ldsBufferOffsetA op))))"
proof (intro conjI allI impI)
  assume "v2_ldsBufferOffsetA op smod KPack op \<noteq> 0"
  then show "BlockwiseGemmV2RewritePattern get op =
         Inl (AssertionFailure ''LDS buffer segment for A is kpack-aligned'')"
    using assms by (simp add: BlockwiseGemmV2RewritePattern_def Let_def)
next
  assume "v2_ldsBufferOffsetA op smod KPack op = 0 \<and> v2_ldsBufferOffsetB op smod KPack op \<noteq> 0"
  then show "BlockwiseGemmV2RewritePattern get op =
         Inl (AssertionFailure ''LDS buffer segment for B is kpack-aligned'')"
    using assms by (simp add: BlockwiseGemmV2RewritePattern_def Let_def)
next
  fix r assume r: "BlockwiseGemmV2RewritePattern get op = Inr r"
  then obtain xcs where
    xcs: "get (elementType (v2_matrixAType op)) (v2_m_per_wave op) (v2_n_per_wave op) = Inr xcs"
    by (auto simp: BlockwiseGemmV2RewritePattern_def Let_def bindE_def
             split: if_splits sum.splits)
  note ok = BlockwiseGemmV2_success [OF r xcs]
  show "v2_ldsBufferOffsetA op smod KPack op = 0" using ok by blast
  show "v2_ldsBufferOffsetB op smod KPack op = 0" using ok by blast
  show "take 4 (emitted r) =
         [ValOp (ConstantIndexOp (v2_ldsBufferOffsetA op sdiv KPack op)),
          ValOp (AddIOp (v2_waveOffsetA op)
                   (ConstantIndexOp (v2_ldsBufferOffsetA op sdiv KPack op))),
          ValOp (ConstantIndexOp (v2_ldsBufferOffsetB op sdiv KPack op)),
          ValOp (AddIOp (v2_waveOffsetB op)
                   (ConstantIndexOp (v2_ldsBufferOffsetB op sdiv KPack op)))]"
    using ok by (auto simp: aBase_def bBase_def)
  {
    fix xcs' assume "get (elementType (v2_matrixAType op)) (v2_m_per_wave op) (v2_n_per_wave op) =
                 Inr xcs' \<and> \<not> IsKReduction xcs'"
    then have "xcs' = xcs" and nk: "\<not> IsKReduction xcs" using xcs by auto
    have "outerLoopM op xcs \<in> set (emitted r)"
      using ok nk by (auto simp: staging_def)
    then show "ValOp (InBoundsLoadOp (elementType (v2_bufferAType op)) (v2_matrixA op)
                   [timesKPack op (sourceOffsetA op)])
            \<in> set (concat (map allOps (emitted r)))"
      using load_in_outerLoopM [of op xcs] by auto
  }
  {
    fix E wA assume e: "eval E (v2_waveOffsetA op) = Some wA \<and> 0 \<le> workitemId E"
    then show "eval E (AddIOp (v2_waveOffsetA op)
                    (ConstantIndexOp (v2_ldsBufferOffsetA op sdiv KPack op))) =
            Some (wA + v2_ldsBufferOffsetA op sdiv KPack op)"
      by (simp add: binop_def)
    from ok have al: "v2_ldsBufferOffsetA op smod KPack op = 0" by blast
    show "eval E (timesKPack op (sourceOffsetA op)) =
            Some ((ivs E (Named ''innerLoopMK'') * v2_m op + workitemId E mod 64
                     + MPerXdlops op * ivs E (Named ''outerLoopM'')) * KPack op
                  + (wA * KPack op + v2_ldsBufferOffsetA op))"
      using eval_sourceOffsetA [OF _ _ assms al] e by blast
  }
qed

lemma exampleGemmV2_returns:
  "\<exists>r. BlockwiseGemmV2RewritePattern (\<lambda>ty m n. Inr exampleSelection) exampleGemmV2 = Inr r"
  by (simp add: BlockwiseGemmV2RewritePattern_def Let_def bindE_def KPack_def
        xdlopsGemms_def twoXdlopsGemms_def vectorD_def drop_front_def MRepeats_def
        NRepeats_def signed_divide_int_def signed_modulo_int_def exampleGemmV2_def
        exampleSelection_def)

theorem BlockwiseGemmV2_lds_offset_round_trip_witness:
  "0 < KPack exampleGemmV2 \<and>
   BlockwiseGemmV2RewritePattern (\<lambda>ty m n. Inr exampleSelection) exampleGemmV2Misaligned =
     Inl (AssertionFailure ''LDS buffer segment for A is kpack-aligned'') \<and>
   BlockwiseGemmV2RewritePattern (\<lambda>ty m n. Inr exampleSelection)
       (exampleGemmV2 \<lparr> v2_ldsBufferOffsetB := 2050 \<rparr>) =
     Inl (AssertionFailure ''LDS buffer segment for B is kpack-aligned'') \<and>
   (\<exists>r. BlockwiseGemmV2RewritePattern (\<lambda>ty m n. Inr exampleSelection) exampleGemmV2 = Inr r \<and>
        take 2 (emitted r) =
          [ValOp (ConstantIndexOp 2),
           ValOp (AddIOp (Operand ''waveOffsetA'') (ConstantIndexOp 2))]) \<and>
   eval exampleEnv (AddIOp (Operand ''waveOffsetA'') (ConstantIndexOp 2)) = Some 258 \<and>
   eval exampleEnv (timesKPack exampleGemmV2 (sourceOffsetA exampleGemmV2)) = Some 2848"
proof -
  have k: "KPack exampleGemmV2 = 4" "KPack exampleGemmV2Misaligned = 4"
    "KPack (exampleGemmV2 \<lparr> v2_ldsBufferOffsetB := 2050 \<rparr>) = 4"
    by (simp_all add: KPack_def exampleGemmV2_def exampleGemmV2Misaligned_def)
  have offs: "v2_ldsBufferOffsetA exampleGemmV2 = 8" "v2_ldsBufferOffsetB exampleGemmV2 = 2048"
    "v2_ldsBufferOffsetA exampleGemmV2Misaligned = 6"
    "v2_waveOffsetA exampleGemmV2 = Operand ''waveOffsetA''"
    "v2_waveOffsetB exampleGemmV2 = Operand ''waveOffsetB''"
    "v2_m exampleGemmV2 = 128" "MPerXdlops exampleGemmV2 = 64"
    by (simp_all add: exampleGemmV2_def exampleGemmV2Misaligned_def MPerXdlops_def)
  have env: "operands exampleEnv ''waveOffsetA'' = 256" "workitemId exampleEnv = 70"
    "ivs exampleEnv (Named ''innerLoopMK'') = 3" "ivs exampleEnv (Named ''outerLoopM'') = 1"
    by (simp_all add: exampleEnv_def)
  have arith: "(8::int) smod 4 = 0" "(6::int) smod 4 \<noteq> 0" "(2050::int) smod 4 \<noteq> 0"
    "(8::int) sdiv 4 = 2" "(2048::int) sdiv 4 = 512" "(2048::int) smod 4 = 0"
    by (simp_all add: signed_modulo_int_def signed_divide_int_def)
  obtain r where
    r: "BlockwiseGemmV2RewritePattern (\<lambda>ty m n. Inr exampleSelection) exampleGemmV2 = Inr r"
    using exampleGemmV2_returns by blast
  have pos: "0 < KPack exampleGemmV2" "0 < KPack exampleGemmV2Misaligned"
    "0 < KPack (exampleGemmV2 \<lparr> v2_ldsBufferOffsetB := 2050 \<rparr>)"
    by (simp_all add: k)
  have "take 2 (take 4 (emitted r)) =
          [ValOp (ConstantIndexOp 2),
           ValOp (AddIOp (Operand ''waveOffsetA'') (ConstantIndexOp 2))]"
    using BlockwiseGemmV2_lds_offset_round_trip
            [OF pos(1), of "\<lambda>ty m n. Inr exampleSelection"] r
    by (simp add: k offs arith)
  then have first: "take 2 (emitted r) =
          [ValOp (ConstantIndexOp 2),
           ValOp (AddIOp (Operand ''waveOffsetA'') (ConstantIndexOp 2))]"
    by simp
  have "\<forall>E wA. eval E (v2_waveOffsetA exampleGemmV2) = Some wA \<and> 0 \<le> workitemId E \<longrightarrow>
          eval E (AddIOp (v2_waveOffsetA exampleGemmV2)
                    (ConstantIndexOp (v2_ldsBufferOffsetA exampleGemmV2 sdiv KPack exampleGemmV2))) =
            Some (wA + v2_ldsBufferOffsetA exampleGemmV2 sdiv KPack exampleGemmV2) \<and>
          eval E (timesKPack exampleGemmV2 (sourceOffsetA exampleGemmV2)) =
            Some ((ivs E (Named ''innerLoopMK'') * v2_m exampleGemmV2 + workitemId E mod 64
                     + MPerXdlops exampleGemmV2 * ivs E (Named ''outerLoopM''))
                    * KPack exampleGemmV2
                  + (wA * KPack exampleGemmV2 + v2_ldsBufferOffsetA exampleGemmV2))"
    using BlockwiseGemmV2_lds_offset_round_trip
            [OF pos(1), of "\<lambda>ty m n. Inr exampleSelection"] r
    by blast
  from this [rule_format, of exampleEnv 256]
  have evals: "eval exampleEnv (AddIOp (Operand ''waveOffsetA'') (ConstantIndexOp 2)) = Some 258 \<and>
     eval exampleEnv (timesKPack exampleGemmV2 (sourceOffsetA exampleGemmV2)) = Some 2848"
    by (simp add: k offs arith env binop_def)
  have a: "BlockwiseGemmV2RewritePattern (\<lambda>ty m n. Inr exampleSelection) exampleGemmV2Misaligned =
     Inl (AssertionFailure ''LDS buffer segment for A is kpack-aligned'')"
    using BlockwiseGemmV2_lds_offset_round_trip
            [OF pos(2), of "\<lambda>ty m n. Inr exampleSelection"]
    by (simp add: k offs arith)
  have b: "BlockwiseGemmV2RewritePattern (\<lambda>ty m n. Inr exampleSelection)
       (exampleGemmV2 \<lparr> v2_ldsBufferOffsetB := 2050 \<rparr>) =
     Inl (AssertionFailure ''LDS buffer segment for B is kpack-aligned'')"
    using BlockwiseGemmV2_lds_offset_round_trip
            [OF pos(3), of "\<lambda>ty m n. Inr exampleSelection"]
    by (simp add: k offs arith)
  show ?thesis
    using pos(1) a b r first evals by blast
qed

lemma eval_blk:
  assumes "0 \<le> workitemId E" and "0 < num_threads_blk xcs"
  shows "eval E (blk_id xcs) = Some (workitemId E mod 64 div num_threads_blk xcs)"
    and "eval E (blk_td xcs) = Some (workitemId E mod 64 mod num_threads_blk xcs)"
  using assms by (simp_all add: blk_id_def blk_td_def eval_laneId binop_def)

lemma eval_sourceOffsetKReduction:
  assumes "0 \<le> workitemId E" and "0 < num_threads_blk xcs" and "eval E kBase = Some base"
  shows "eval E (timesKPack op (sourceOffsetKReduction xcs extent kBase)) =
     Some (((ivs E (Named ''loopKLoad'') * num_input_blks xcs
               + workitemId E mod 64 div num_threads_blk xcs) * extent + base)
           * (if KPack op > 1 then KPack op else 1))"
  using assms
  by (simp add: timesKPack_def sourceOffsetKReduction_def eval_blk binop_def)

lemma accesses_loadKReduction:
  assumes "0 \<le> workitemId E" and "0 < num_threads_blk xcs" and "eval E kBase = Some base"
  shows "concat (map (accesses E) (loadKReduction op xcs extent kBase ty matrix buffer)) =
     [Read matrix
        [Some (((ivs E (Named ''loopKLoad'') * num_input_blks xcs
                   + workitemId E mod 64 div num_threads_blk xcs) * extent + base)
               * (if KPack op > 1 then KPack op else 1))],
      Write buffer [Some (ivs E (Named ''loopKLoad''))]
        (InBoundsLoadOp ty matrix [timesKPack op (sourceOffsetKReduction xcs extent kBase)])]"
proof -
  have ops: "concat (map (accesses E) (timesKPackOps op v)) = []" for v
    by (auto simp: timesKPackOps_def)
  have src: "accesses E (ValOp (sourceOffsetKReduction xcs extent kBase)) = []"
    by (simp add: sourceOffsetKReduction_def)
  show ?thesis
    using eval_sourceOffsetKReduction [OF assms, of op extent]
    by (simp add: loadKReduction_def Let_def ops src)
qed

lemma eval_kBaseA:
  assumes "0 \<le> workitemId E" and "0 < num_threads_blk xcs"
    and "eval E (v2_waveOffsetA op) = Some wA"
  shows "eval E (kBaseA op xcs) =
     Some (wA + v2_ldsBufferOffsetA op sdiv KPack op + workitemId E mod 64 mod num_threads_blk xcs)"
  using assms by (simp add: kBaseA_def eval_aBase eval_blk binop_def)

lemma eval_kBaseB:
  assumes "0 \<le> workitemId E" and "0 < num_threads_blk xcs"
    and "eval E (v2_waveOffsetB op) = Some wB"
  shows "eval E (kBaseB op xcs) =
     Some (wB + v2_ldsBufferOffsetB op sdiv KPack op + workitemId E mod 64 mod num_threads_blk xcs)"
  using assms by (simp add: kBaseB_def eval_bBase eval_blk binop_def)

lemma staging_loops_KReduction:
  "IsKReduction xcs \<Longrightarrow> filter isAffineForOp (staging op xcs) = [loopKLoad op xcs]"
  by (simp add: staging_def loopKLoad_def)

lemma xdlopsGemms_no_loops:
  "xdlopsGemms op xcs = Inr (gemms, replaced) \<Longrightarrow> filter isAffineForOp gemms = []"
  by (auto simp: xdlopsGemms_def Let_def split: if_splits dest: twoXdlopsGemms_result)

text \<open>
  C6. K-reduction mode holds exactly when the selected instruction has num_output_blks = 1
  and num_input_blks > 1. When the pattern lowers an operation in that mode,
  KPerThread = K / num_input_blks, blk_id = laneId / num_threads_blk and
  blk_td = laneId % num_threads_blk with laneId the workitem id modulo 64, and the only loop
  created is the staging loop over k_i from 0 to KPerThread in steps of 1. One iteration of
  it loads A at ((k_i * num_input_blks + blk_id) * M + blk_td + base) times KPack when
  KPack > 1, with base = waveOffsetA + ldsOffsetA / KPack, and stores the value to register
  k_i of buffer A, then does the same for B with N and the base of B.
\<close>

theorem BlockwiseGemmV2_K_reduction_staging:
  assumes "get (elementType (v2_matrixAType op)) (v2_m_per_wave op) (v2_n_per_wave op) = Inr xcs"
    and "BlockwiseGemmV2RewritePattern get op = Inr r"
  shows
   "(IsKReduction xcs \<longleftrightarrow> num_output_blks xcs = 1 \<and> num_input_blks xcs > 1) \<and>
    (IsKReduction xcs \<longrightarrow>
       KPerThread op xcs = v2_k op sdiv num_input_blks xcs \<and>
       laneId = RemUIOp WorkitemIdOp (ConstantIndexOp 64) \<and>
       blk_id xcs = DivUIOp laneId (ConstantIndexOp (num_threads_blk xcs)) \<and>
       blk_td xcs = RemUIOp laneId (ConstantIndexOp (num_threads_blk xcs)) \<and>
       filter isAffineForOp (emitted r) =
         [AffineForOp (Named ''loopKLoad'') 0 (v2_k op sdiv num_input_blks xcs) 1
            (loadKReduction op xcs (v2_m op) (kBaseA op xcs) (elementType (v2_bufferAType op))
               (v2_matrixA op) (v2_bufferA op)
             @ loadKReduction op xcs (v2_n op) (kBaseB op xcs) (elementType (v2_bufferBType op))
               (v2_matrixB op) (v2_bufferB op))] \<and>
       (\<forall>E wA wB.
          eval E (v2_waveOffsetA op) = Some wA \<and> eval E (v2_waveOffsetB op) = Some wB \<and>
          0 \<le> workitemId E \<and> 0 < num_threads_blk xcs \<longrightarrow>
          concat (map (accesses E)
            (loadKReduction op xcs (v2_m op) (kBaseA op xcs) (elementType (v2_bufferAType op))
               (v2_matrixA op) (v2_bufferA op)
             @ loadKReduction op xcs (v2_n op) (kBaseB op xcs) (elementType (v2_bufferBType op))
               (v2_matrixB op) (v2_bufferB op))) =
          [Read (v2_matrixA op)
             [Some (((ivs E (Named ''loopKLoad'') * num_input_blks xcs
                        + workitemId E mod 64 div num_threads_blk xcs) * v2_m op
                     + (wA + v2_ldsBufferOffsetA op sdiv KPack op
                        + workitemId E mod 64 mod num_threads_blk xcs))
                    * (if KPack op > 1 then KPack op else 1))],
           Write (v2_bufferA op) [Some (ivs E (Named ''loopKLoad''))]
             (InBoundsLoadOp (elementType (v2_bufferAType op)) (v2_matrixA op)
                [timesKPack op (sourceOffsetKReduction xcs (v2_m op) (kBaseA op xcs))]),
           Read (v2_matrixB op)
             [Some (((ivs E (Named ''loopKLoad'') * num_input_blks xcs
                        + workitemId E mod 64 div num_threads_blk xcs) * v2_n op
                     + (wB + v2_ldsBufferOffsetB op sdiv KPack op
                        + workitemId E mod 64 mod num_threads_blk xcs))
                    * (if KPack op > 1 then KPack op else 1))],
           Write (v2_bufferB op) [Some (ivs E (Named ''loopKLoad''))]
             (InBoundsLoadOp (elementType (v2_bufferBType op)) (v2_matrixB op)
                [timesKPack op (sourceOffsetKReduction xcs (v2_n op) (kBaseB op xcs))])]))"
proof (intro conjI impI allI)
  show "IsKReduction xcs \<longleftrightarrow> num_output_blks xcs = 1 \<and> num_input_blks xcs > 1"
    by (simp add: IsKReduction_def)
next
  assume k: "IsKReduction xcs"
  show "KPerThread op xcs = v2_k op sdiv num_input_blks xcs"
    using k by (simp add: KPerThread_def)
  show "laneId = RemUIOp WorkitemIdOp (ConstantIndexOp 64)"
    by (simp add: laneId_def waveSize_def)
  show "blk_id xcs = DivUIOp laneId (ConstantIndexOp (num_threads_blk xcs))"
    by (simp add: blk_id_def)
  show "blk_td xcs = RemUIOp laneId (ConstantIndexOp (num_threads_blk xcs))"
    by (simp add: blk_td_def)
  from BlockwiseGemmV2_success [OF assms(2,1)] obtain gemms replaced where
    g: "xdlopsGemms op xcs = Inr (gemms, replaced)"
    and em: "emitted r =
              [ValOp (ConstantIndexOp (v2_ldsBufferOffsetA op sdiv KPack op)),
               ValOp (aBase op),
               ValOp (ConstantIndexOp (v2_ldsBufferOffsetB op sdiv KPack op)),
               ValOp (bBase op),
               ValOp WorkitemIdOp,
               ValOp (ConstantIndexOp waveSize),
               ValOp laneId,
               ValOp (ConstantIndexOp (v2_m op)),
               ValOp (ConstantIndexOp (v2_n op)),
               ValOp (ConstantIndexOp (v2_k op)),
               ValOp (ConstantIndexOp (MPerXdlops op)),
               ValOp (ConstantIndexOp (NPerXdlops op)),
               ValOp (ConstantIndexOp 0),
               ValOp (ConstantIndexOp (KPerThread op xcs))]
              @ staging op xcs @ gemms"
    by auto
  have "filter isAffineForOp (emitted r) = [loopKLoad op xcs]"
    by (simp add: em staging_loops_KReduction [OF k] xdlopsGemms_no_loops [OF g])
  then show "filter isAffineForOp (emitted r) =
         [AffineForOp (Named ''loopKLoad'') 0 (v2_k op sdiv num_input_blks xcs) 1
            (loadKReduction op xcs (v2_m op) (kBaseA op xcs) (elementType (v2_bufferAType op))
               (v2_matrixA op) (v2_bufferA op)
             @ loadKReduction op xcs (v2_n op) (kBaseB op xcs) (elementType (v2_bufferBType op))
               (v2_matrixB op) (v2_bufferB op))]"
    using k by (simp add: loopKLoad_def KPerThread_def)
  fix E wA wB
  assume e: "eval E (v2_waveOffsetA op) = Some wA \<and> eval E (v2_waveOffsetB op) = Some wB \<and>
          0 \<le> workitemId E \<and> 0 < num_threads_blk xcs"
  then have w: "0 \<le> workitemId E" and n: "0 < num_threads_blk xcs" by auto
  note a = accesses_loadKReduction [OF w n eval_kBaseA [OF w n], of op wA]
  note b = accesses_loadKReduction [OF w n eval_kBaseB [OF w n], of op wB]
  show "concat (map (accesses E)
            (loadKReduction op xcs (v2_m op) (kBaseA op xcs) (elementType (v2_bufferAType op))
               (v2_matrixA op) (v2_bufferA op)
             @ loadKReduction op xcs (v2_n op) (kBaseB op xcs) (elementType (v2_bufferBType op))
               (v2_matrixB op) (v2_bufferB op))) =
          [Read (v2_matrixA op)
             [Some (((ivs E (Named ''loopKLoad'') * num_input_blks xcs
                        + workitemId E mod 64 div num_threads_blk xcs) * v2_m op
                     + (wA + v2_ldsBufferOffsetA op sdiv KPack op
                        + workitemId E mod 64 mod num_threads_blk xcs))
                    * (if KPack op > 1 then KPack op else 1))],
           Write (v2_bufferA op) [Some (ivs E (Named ''loopKLoad''))]
             (InBoundsLoadOp (elementType (v2_bufferAType op)) (v2_matrixA op)
                [timesKPack op (sourceOffsetKReduction xcs (v2_m op) (kBaseA op xcs))]),
           Read (v2_matrixB op)
             [Some (((ivs E (Named ''loopKLoad'') * num_input_blks xcs
                        + workitemId E mod 64 div num_threads_blk xcs) * v2_n op
                     + (wB + v2_ldsBufferOffsetB op sdiv KPack op
                        + workitemId E mod 64 mod num_threads_blk xcs))
                    * (if KPack op > 1 then KPack op else 1))],
           Write (v2_bufferB op) [Some (ivs E (Named ''loopKLoad''))]
             (InBoundsLoadOp (elementType (v2_bufferBType op)) (v2_matrixB op)
                [timesKPack op (sourceOffsetKReduction xcs (v2_n op) (kBaseB op xcs))])]"
    using e a b by simp
qed


theorem BlockwiseGemmV2_K_reduction_staging_witness:
  "IsKReduction exampleKReductionSelection \<and>
   KPerThread exampleGemmV2 exampleKReductionSelection = 2 \<and>
   (\<exists>r. BlockwiseGemmV2RewritePattern (\<lambda>ty m n. Inr exampleKReductionSelection) exampleGemmV2 =
          Inr r \<and>
        filter isAffineForOp (emitted r) =
          [AffineForOp (Named ''loopKLoad'') 0 2 1
             (loadKReduction exampleGemmV2 exampleKReductionSelection 128
                (kBaseA exampleGemmV2 exampleKReductionSelection) F32 (Operand ''ldsA'')
                (Operand ''bufferA'')
              @ loadKReduction exampleGemmV2 exampleKReductionSelection 64
                (kBaseB exampleGemmV2 exampleKReductionSelection) F32 (Operand ''ldsB'')
                (Operand ''bufferB''))]) \<and>
   map (\<lambda>a. case a of Read m idx \<Rightarrow> (m, idx) | Write m idx v \<Rightarrow> (m, idx))
     (concat (map (accesses exampleEnv)
        (loadKReduction exampleGemmV2 exampleKReductionSelection 128
           (kBaseA exampleGemmV2 exampleKReductionSelection) F32 (Operand ''ldsA'')
           (Operand ''bufferA'')
         @ loadKReduction exampleGemmV2 exampleKReductionSelection 64
           (kBaseB exampleGemmV2 exampleKReductionSelection) F32 (Operand ''ldsB'')
           (Operand ''bufferB'')))) =
     [(Operand ''ldsA'', [Some 4128]), (Operand ''bufferA'', [Some 3]),
      (Operand ''ldsB'', [Some 3864]), (Operand ''bufferB'', [Some 3])]"
proof -
  have kred: "IsKReduction exampleKReductionSelection"
    by (simp add: IsKReduction_def exampleKReductionSelection_def)
  have sel: "(\<lambda>ty m n. Inr exampleKReductionSelection)
               (elementType (v2_matrixAType exampleGemmV2)) (v2_m_per_wave exampleGemmV2)
               (v2_n_per_wave exampleGemmV2) = Inr exampleKReductionSelection"
    by simp
  have "\<exists>r. BlockwiseGemmV2RewritePattern (\<lambda>ty m n. Inr exampleKReductionSelection)
               exampleGemmV2 = Inr r"
    by (simp add: BlockwiseGemmV2RewritePattern_def Let_def bindE_def KPack_def
          xdlopsGemms_def twoXdlopsGemms_def vectorD_def drop_front_def MRepeats_def
          NRepeats_def signed_divide_int_def signed_modulo_int_def exampleGemmV2_def
          exampleKReductionSelection_def)
  then obtain r where
    r: "BlockwiseGemmV2RewritePattern (\<lambda>ty m n. Inr exampleKReductionSelection)
          exampleGemmV2 = Inr r"
    by blast
  note staged = BlockwiseGemmV2_K_reduction_staging [OF sel r]
  have vals: "v2_k exampleGemmV2 = 4" "v2_m exampleGemmV2 = 128" "v2_n exampleGemmV2 = 64"
    "num_input_blks exampleKReductionSelection = 2"
    "num_threads_blk exampleKReductionSelection = 32"
    "v2_matrixA exampleGemmV2 = Operand ''ldsA''" "v2_matrixB exampleGemmV2 = Operand ''ldsB''"
    "v2_bufferA exampleGemmV2 = Operand ''bufferA''"
    "v2_bufferB exampleGemmV2 = Operand ''bufferB''"
    "elementType (v2_bufferAType exampleGemmV2) = F32"
    "elementType (v2_bufferBType exampleGemmV2) = F32"
    "v2_waveOffsetA exampleGemmV2 = Operand ''waveOffsetA''"
    "v2_waveOffsetB exampleGemmV2 = Operand ''waveOffsetB''"
    "v2_ldsBufferOffsetA exampleGemmV2 = 8" "v2_ldsBufferOffsetB exampleGemmV2 = 2048"
    "KPack exampleGemmV2 = 4"
    by (simp_all add: exampleGemmV2_def exampleKReductionSelection_def KPack_def)
  have arith: "(4::int) sdiv 2 = 2" "(8::int) sdiv 4 = 2" "(2048::int) sdiv 4 = 512"
    by (simp_all add: signed_divide_int_def)
  have env: "operands exampleEnv ''waveOffsetA'' = 256" "operands exampleEnv ''waveOffsetB'' = 64"
    "workitemId exampleEnv = 70" "ivs exampleEnv (Named ''loopKLoad'') = 3"
    by (simp_all add: exampleEnv_def)
  have k: "KPerThread exampleGemmV2 exampleKReductionSelection = 2"
    using staged kred by (simp add: vals arith)
  have loops: "filter isAffineForOp (emitted r) =
          [AffineForOp (Named ''loopKLoad'') 0 2 1
             (loadKReduction exampleGemmV2 exampleKReductionSelection 128
                (kBaseA exampleGemmV2 exampleKReductionSelection) F32 (Operand ''ldsA'')
                (Operand ''bufferA'')
              @ loadKReduction exampleGemmV2 exampleKReductionSelection 64
                (kBaseB exampleGemmV2 exampleKReductionSelection) F32 (Operand ''ldsB'')
                (Operand ''bufferB''))]"
    using staged kred by (simp add: vals arith)
  have "\<forall>E wA wB.
          eval E (v2_waveOffsetA exampleGemmV2) = Some wA \<and>
          eval E (v2_waveOffsetB exampleGemmV2) = Some wB \<and>
          0 \<le> workitemId E \<and> 0 < num_threads_blk exampleKReductionSelection \<longrightarrow>
          map (\<lambda>a. case a of Read m idx \<Rightarrow> (m, idx) | Write m idx v \<Rightarrow> (m, idx))
           (concat (map (accesses E)
            (loadKReduction exampleGemmV2 exampleKReductionSelection 128
               (kBaseA exampleGemmV2 exampleKReductionSelection) F32 (Operand ''ldsA'')
               (Operand ''bufferA'')
             @ loadKReduction exampleGemmV2 exampleKReductionSelection 64
               (kBaseB exampleGemmV2 exampleKReductionSelection) F32 (Operand ''ldsB'')
               (Operand ''bufferB'')))) =
          [(Operand ''ldsA'',
             [Some (((ivs E (Named ''loopKLoad'') * 2 + workitemId E mod 64 div 32) * 128
                     + (wA + 2 + workitemId E mod 64 mod 32)) * 4)]),
           (Operand ''bufferA'', [Some (ivs E (Named ''loopKLoad''))]),
           (Operand ''ldsB'',
             [Some (((ivs E (Named ''loopKLoad'') * 2 + workitemId E mod 64 div 32) * 64
                     + (wB + 512 + workitemId E mod 64 mod 32)) * 4)]),
           (Operand ''bufferB'', [Some (ivs E (Named ''loopKLoad''))])]"
    using staged kred by (simp add: vals arith del: eval.simps)
  from this [rule_format, of exampleEnv 256 64]
  have acc: "map (\<lambda>a. case a of Read m idx \<Rightarrow> (m, idx) | Write m idx v \<Rightarrow> (m, idx))
     (concat (map (accesses exampleEnv)
        (loadKReduction exampleGemmV2 exampleKReductionSelection 128
           (kBaseA exampleGemmV2 exampleKReductionSelection) F32 (Operand ''ldsA'')
           (Operand ''bufferA'')
         @ loadKReduction exampleGemmV2 exampleKReductionSelection 64
           (kBaseB exampleGemmV2 exampleKReductionSelection) F32 (Operand ''ldsB'')
           (Operand ''bufferB'')))) =
     [(Operand ''ldsA'', [Some 4128]), (Operand ''bufferA'', [Some 3]),
      (Operand ''ldsB'', [Some 3864]), (Operand ''bufferB'', [Some 3])]"
    by (simp add: vals env)
  show ?thesis
    using kred k r loops acc by blast
qed

subsection \<open>BlockwiseGemm\<close>

lemma length_filter_concat_replicate:
  "length (filter P (concat (replicate n xs))) = n * length (filter P xs)"
  by (induction n) simp_all

lemma accesses_copyLoop:
  "accesses E (copyLoop name lds regs transforms view bounds matrix srcTy dstTy alloc) =
     concat (replicate (transformingForTrips bounds None)
       [Read matrix [None],
        Write alloc [None]
          (fst (createTypeConversionOp (LoadOp matrix [LowerCoords (Named name) 0]) srcTy dstTy))])"
  by (simp add: copyLoop_def createTypeConversionOp_def Let_def)

lemma trips_four:
  assumes "0 \<le> a" "0 \<le> b" "0 \<le> c" "0 \<le> d"
  shows "int (transformingForTrips [a, b, c, d] None) = a * b * c * d"
  using assms by (simp add: transformingForTrips_def iterations_def)

lemma sdiv_nonneg:
  fixes a b :: int
  assumes "0 \<le> a" "0 < b"
  shows "0 \<le> a sdiv b"
  using assms by (simp add: signed_divide_int_def sgn_if pos_imp_zdiv_nonneg_iff)

lemma BlockwiseGemm_success:
  fixes op :: BlockwiseGemmOp and untransform :: untransformFn
  defines "k \<equiv> shape (bg_matrixAType op) ! 0"
    and "m \<equiv> shape (bg_matrixAType op) ! 1"
    and "n \<equiv> shape (bg_matrixBType op) ! 1"
    and "kPack \<equiv> shape (bg_matrixAType op) ! 2"
    and "mC \<equiv> shape (bg_matrixCType op) ! 0"
    and "nC \<equiv> shape (bg_matrixCType op) ! 1"
  defines "mRepeat \<equiv> mC sdiv bg_mPerThread op"
    and "nRepeat \<equiv> nC sdiv bg_nPerThread op"
  defines "viewA \<equiv> untransform (bg_matrixA op)
                      [strideLDSBuffer ''m'' ''mRepeat'' ''mPerThread'' k mRepeat (m sdiv mRepeat)
                         kPack m (bg_mRepeatStride op)]"
    and "viewB \<equiv> untransform (bg_matrixB op)
                      [strideLDSBuffer ''n'' ''nRepeat'' ''nPerThread'' k nRepeat (n sdiv nRepeat)
                         kPack n (bg_nRepeatStride op)]"
  assumes "BlockwiseGemmRewritePattern untransform op = Inr r"
  shows "bg_mPerThread op \<noteq> 0 \<and> bg_nPerThread op \<noteq> 0 \<and> mRepeat \<noteq> 0 \<and> nRepeat \<noteq> 0 \<and>
    r = \<lparr> emitted =
            [ValOp (ConstantIndexOp 0),
             GpuAllocOp (Named ''threadAAllocOp'')
               \<lparr> shape = [bg_kPerThread op * mC * kPack],
                 elementType = elementType (bg_matrixCType op),
                 memorySpace = PrivateAddressSpace \<rparr>,
             GpuAllocOp (Named ''threadBAllocOp'')
               \<lparr> shape = [bg_kPerThread op * nC * kPack],
                 elementType = elementType (bg_matrixCType op),
                 memorySpace = PrivateAddressSpace \<rparr>,
             AffineForOp (Named ''loopOp'') 0 k (bg_kPerThread op)
               [copyLoop ''copyALoop''
                  [InductionVar (Named ''loopOp''), ConstantIndexOp 0, bg_threadOffsetA op,
                   ConstantIndexOp 0]
                  (replicate 4 (ConstantIndexOp 0)) (snd viewA)
                  (threadCopyView ''mRepeat'' ''mPerThread'' (bg_kPerThread op * mC * kPack)
                     (bg_kPerThread op) mRepeat (bg_mPerThread op) kPack)
                  [bg_kPerThread op, mRepeat, bg_mPerThread op, kPack]
                  (fst viewA) (elementType (bg_matrixAType op)) (elementType (bg_matrixCType op))
                  (OpResult (Named ''threadAAllocOp'') 0),
                copyLoop ''copyBLoop''
                  [InductionVar (Named ''loopOp''), ConstantIndexOp 0, bg_threadOffsetB op,
                   ConstantIndexOp 0]
                  (replicate 4 (ConstantIndexOp 0)) (snd viewB)
                  (threadCopyView ''nRepeat'' ''nPerThread'' (bg_kPerThread op * nC * kPack)
                     (bg_kPerThread op) nRepeat (bg_nPerThread op) kPack)
                  [bg_kPerThread op, nRepeat, bg_nPerThread op, kPack]
                  (fst viewB) (elementType (bg_matrixBType op)) (elementType (bg_matrixCType op))
                  (OpResult (Named ''threadBAllocOp'') 0),
                ValOp (reshapeBuffer (OpResult (Named ''threadAAllocOp'') 0)
                         [''k'', ''m'', ''kpack''] [bg_kPerThread op, mC, kPack]),
                ValOp (reshapeBuffer (OpResult (Named ''threadBAllocOp'') 0)
                         [''k'', ''n'', ''kpack''] [bg_kPerThread op, nC, kPack]),
                ThreadwiseGemmOp
                  (reshapeBuffer (OpResult (Named ''threadAAllocOp'') 0)
                     [''k'', ''m'', ''kpack''] [bg_kPerThread op, mC, kPack])
                  (reshapeBuffer (OpResult (Named ''threadBAllocOp'') 0)
                     [''k'', ''n'', ''kpack''] [bg_kPerThread op, nC, kPack])
                  (bg_matrixC op)]],
          replacement = Some [],
          status = success \<rparr>"
  using assms(11)
  unfolding assms(1-10)
  by (auto simp: BlockwiseGemmRewritePattern_def Let_def bindE_def getShape_def divide_def
        split_beta split: if_splits)

lemma copyLoop_no_alloc:
  "filter isGpuAllocOp
     (allOps (copyLoop name lds regs transforms view bounds matrix srcTy dstTy alloc)) = []"
  by (simp add: copyLoop_def createTypeConversionOp_def Let_def)

text \<open>
  C5, as amended. When the blockwise_gemm lowering returns, the operations it created hold
  exactly two allocations, one for A and one for B, both flat, in the private address space
  and of the element type of the accumulator C. Buffer A has K-per-thread * mC * K-pack
  elements and buffer B has K-per-thread * nC * K-pack, where mC and nC are the extents of C;
  when M-per-thread divides mC that is K-per-thread * repeat-count * M-per-thread * K-pack,
  and likewise for B.
\<close>

theorem BlockwiseGemm_allocates_two_register_buffers:
  assumes "BlockwiseGemmRewritePattern untransform op = Inr r"
  shows "filter isGpuAllocOp (concat (map allOps (emitted r))) =
      [GpuAllocOp (Named ''threadAAllocOp'')
         \<lparr> shape = [bg_kPerThread op * (shape (bg_matrixCType op) ! 0)
                       * (shape (bg_matrixAType op) ! 2)],
           elementType = elementType (bg_matrixCType op),
           memorySpace = PrivateAddressSpace \<rparr>,
       GpuAllocOp (Named ''threadBAllocOp'')
         \<lparr> shape = [bg_kPerThread op * (shape (bg_matrixCType op) ! 1)
                       * (shape (bg_matrixAType op) ! 2)],
           elementType = elementType (bg_matrixCType op),
           memorySpace = PrivateAddressSpace \<rparr>] \<and>
    (shape (bg_matrixCType op) ! 0 smod bg_mPerThread op = 0 \<longrightarrow>
       bg_kPerThread op * (shape (bg_matrixCType op) ! 0) * (shape (bg_matrixAType op) ! 2) =
       bg_kPerThread op * (shape (bg_matrixCType op) ! 0 sdiv bg_mPerThread op)
         * bg_mPerThread op * (shape (bg_matrixAType op) ! 2)) \<and>
    (shape (bg_matrixCType op) ! 1 smod bg_nPerThread op = 0 \<longrightarrow>
       bg_kPerThread op * (shape (bg_matrixCType op) ! 1) * (shape (bg_matrixAType op) ! 2) =
       bg_kPerThread op * (shape (bg_matrixCType op) ! 1 sdiv bg_nPerThread op)
         * bg_nPerThread op * (shape (bg_matrixAType op) ! 2))"
proof (intro conjI impI)
  show "filter isGpuAllocOp (concat (map allOps (emitted r))) =
      [GpuAllocOp (Named ''threadAAllocOp'')
         \<lparr> shape = [bg_kPerThread op * (shape (bg_matrixCType op) ! 0)
                       * (shape (bg_matrixAType op) ! 2)],
           elementType = elementType (bg_matrixCType op),
           memorySpace = PrivateAddressSpace \<rparr>,
       GpuAllocOp (Named ''threadBAllocOp'')
         \<lparr> shape = [bg_kPerThread op * (shape (bg_matrixCType op) ! 1)
                       * (shape (bg_matrixAType op) ! 2)],
           elementType = elementType (bg_matrixCType op),
           memorySpace = PrivateAddressSpace \<rparr>]"
    using BlockwiseGemm_success [OF assms]
    by (auto simp: copyLoop_no_alloc reshapeBuffer_def)
next
  assume "shape (bg_matrixCType op) ! 0 smod bg_mPerThread op = 0"
  then show "bg_kPerThread op * (shape (bg_matrixCType op) ! 0) * (shape (bg_matrixAType op) ! 2) =
       bg_kPerThread op * (shape (bg_matrixCType op) ! 0 sdiv bg_mPerThread op)
         * bg_mPerThread op * (shape (bg_matrixAType op) ! 2)"
    by (simp add: sdiv_times_exact mult.assoc)
next
  assume "shape (bg_matrixCType op) ! 1 smod bg_nPerThread op = 0"
  then show "bg_kPerThread op * (shape (bg_matrixCType op) ! 1) * (shape (bg_matrixAType op) ! 2) =
       bg_kPerThread op * (shape (bg_matrixCType op) ! 1 sdiv bg_nPerThread op)
         * bg_nPerThread op * (shape (bg_matrixAType op) ! 2)"
    by (simp add: sdiv_times_exact mult.assoc)
qed

lemma exampleGemm_returns:
  "\<exists>r. BlockwiseGemmRewritePattern exampleUntransform exampleGemm = Inr r"
  by (simp add: BlockwiseGemmRewritePattern_def Let_def bindE_def getShape_def divide_def
        exampleGemm_def exampleUntransform_def signed_divide_int_def)

lemma exampleGemm_values:
  "bg_kPerThread exampleGemm = 2" "bg_mPerThread exampleGemm = 2" "bg_nPerThread exampleGemm = 2"
  "shape (bg_matrixCType exampleGemm) ! 0 = 4" "shape (bg_matrixCType exampleGemm) ! Suc 0 = 4"
  "shape (bg_matrixAType exampleGemm) ! 0 = 8"
  "shape (bg_matrixAType exampleGemm) ! 2 = 2" "elementType (bg_matrixCType exampleGemm) = F32"
  "elementType (bg_matrixAType exampleGemm) = F16" "elementType (bg_matrixBType exampleGemm) = F16"
  "bg_matrixA exampleGemm = Operand ''matrixA''" "bg_matrixB exampleGemm = Operand ''matrixB''"
  by (simp_all add: exampleGemm_def)

theorem BlockwiseGemm_allocates_two_register_buffers_witness:
  "\<exists>r. BlockwiseGemmRewritePattern exampleUntransform exampleGemm = Inr r \<and>
       filter isGpuAllocOp (concat (map allOps (emitted r))) =
         [GpuAllocOp (Named ''threadAAllocOp'')
            \<lparr> shape = [16], elementType = F32, memorySpace = PrivateAddressSpace \<rparr>,
          GpuAllocOp (Named ''threadBAllocOp'')
            \<lparr> shape = [16], elementType = F32, memorySpace = PrivateAddressSpace \<rparr>] \<and>
       (4::int) smod 2 = 0 \<and> (16::int) = 2 * (4 sdiv 2) * 2 * 2"
proof -
  obtain r where r: "BlockwiseGemmRewritePattern exampleUntransform exampleGemm = Inr r"
    using exampleGemm_returns by blast
  have arith: "(4::int) smod 2 = 0" "(4::int) sdiv 2 = 2"
    by (simp_all add: signed_modulo_int_def signed_divide_int_def)
  show ?thesis
    using BlockwiseGemm_allocates_two_register_buffers [OF r] r
    by (auto simp: exampleGemm_values arith)
qed

text \<open>
  C5 as stated fails: for an accumulator of extent 4 with M-per-thread 2, K-per-thread 2 and
  K-pack 2, the repeat count is 2 and K-per-thread * repeat-count * K-pack is 8, but the
  buffers the lowering allocates have 16 elements.
\<close>

theorem BlockwiseGemm_buffer_size_counterexample:
  "filter isGpuAllocOp
     (concat (map allOps
        (emittedOps (BlockwiseGemmRewritePattern exampleUntransform exampleGemm)))) \<noteq>
     [GpuAllocOp (Named ''threadAAllocOp'')
        \<lparr> shape = [bg_kPerThread exampleGemm
                      * (shape (bg_matrixCType exampleGemm) ! 0 sdiv bg_mPerThread exampleGemm)
                      * (shape (bg_matrixAType exampleGemm) ! 2)],
          elementType = F32, memorySpace = PrivateAddressSpace \<rparr>,
      GpuAllocOp (Named ''threadBAllocOp'')
        \<lparr> shape = [bg_kPerThread exampleGemm
                      * (shape (bg_matrixCType exampleGemm) ! 1 sdiv bg_nPerThread exampleGemm)
                      * (shape (bg_matrixAType exampleGemm) ! 2)],
          elementType = F32, memorySpace = PrivateAddressSpace \<rparr>]"
proof -
  obtain r where r: "BlockwiseGemmRewritePattern exampleUntransform exampleGemm = Inr r"
    using exampleGemm_returns by blast
  have allocs: "filter isGpuAllocOp (concat (map allOps (emitted r))) =
         [GpuAllocOp (Named ''threadAAllocOp'')
            \<lparr> shape = [16], elementType = F32, memorySpace = PrivateAddressSpace \<rparr>,
          GpuAllocOp (Named ''threadBAllocOp'')
            \<lparr> shape = [16], elementType = F32, memorySpace = PrivateAddressSpace \<rparr>]"
    using BlockwiseGemm_success [OF r]
    by (auto simp: copyLoop_no_alloc reshapeBuffer_def exampleGemm_values)
  have arith: "(4::int) sdiv 2 = 2"
    by (simp add: signed_divide_int_def)
  show ?thesis
    by (simp add: r emittedOps_def allocs exampleGemm_values arith)
qed

lemma copyLoop_counts:
  assumes "0 \<le> a" "0 \<le> b" "0 \<le> c" "0 \<le> d"
  shows "int (length (filter (isReadOf matrix)
            (accesses E (copyLoop name lds regs transforms view [a, b, c, d] matrix srcTy dstTy
               alloc)))) = a * b * c * d"
    and "int (length (filter (isWriteOf alloc)
            (accesses E (copyLoop name lds regs transforms view [a, b, c, d] matrix srcTy dstTy
               alloc)))) = a * b * c * d"
    and "int (length
            (accesses E (copyLoop name lds regs transforms view [a, b, c, d] matrix srcTy dstTy
               alloc))) = 2 * (a * b * c * d)"
  using trips_four [OF assms]
  by (simp_all add: accesses_copyLoop length_filter_concat_replicate isReadOf_def isWriteOf_def
        length_concat sum_list_replicate)

text \<open>
  C4. For every blockwise_gemm operation that the pattern lowers, with non-negative tile
  sizes and extents and with mC % mPerThread = 0 and nC % nPerThread = 0: the body of the
  created loop over K holds the copy loop of A, the copy loop of B, the two reshapes and the
  threadwise gemm. In one iteration of the K loop, the copy loop of A performs
  kPerThread * mRepeat * mPerThread * kPack loads, all from the matrix A view, and as many
  stores, all into the register buffer of A, and nothing else; that number is the size of the
  buffer, kPerThread * mC * kPack. The same holds for B with nRepeat, nPerThread and nC.
\<close>

theorem BlockwiseGemm_copy_reads_equal_writes:
  fixes op :: BlockwiseGemmOp and untransform :: untransformFn
  defines "k \<equiv> shape (bg_matrixAType op) ! 0"
    and "m \<equiv> shape (bg_matrixAType op) ! 1"
    and "n \<equiv> shape (bg_matrixBType op) ! 1"
    and "kPack \<equiv> shape (bg_matrixAType op) ! 2"
    and "mC \<equiv> shape (bg_matrixCType op) ! 0"
    and "nC \<equiv> shape (bg_matrixCType op) ! 1"
  defines "mRepeat \<equiv> mC sdiv bg_mPerThread op"
    and "nRepeat \<equiv> nC sdiv bg_nPerThread op"
  defines "viewA \<equiv> untransform (bg_matrixA op)
                      [strideLDSBuffer ''m'' ''mRepeat'' ''mPerThread'' k mRepeat (m sdiv mRepeat)
                         kPack m (bg_mRepeatStride op)]"
    and "viewB \<equiv> untransform (bg_matrixB op)
                      [strideLDSBuffer ''n'' ''nRepeat'' ''nPerThread'' k nRepeat (n sdiv nRepeat)
                         kPack n (bg_nRepeatStride op)]"
  defines "copyALoop \<equiv>
             copyLoop ''copyALoop''
               [InductionVar (Named ''loopOp''), ConstantIndexOp 0, bg_threadOffsetA op,
                ConstantIndexOp 0]
               (replicate 4 (ConstantIndexOp 0)) (snd viewA)
               (threadCopyView ''mRepeat'' ''mPerThread'' (bg_kPerThread op * mC * kPack)
                  (bg_kPerThread op) mRepeat (bg_mPerThread op) kPack)
               [bg_kPerThread op, mRepeat, bg_mPerThread op, kPack]
               (fst viewA) (elementType (bg_matrixAType op)) (elementType (bg_matrixCType op))
               (OpResult (Named ''threadAAllocOp'') 0)"
    and "copyBLoop \<equiv>
             copyLoop ''copyBLoop''
               [InductionVar (Named ''loopOp''), ConstantIndexOp 0, bg_threadOffsetB op,
                ConstantIndexOp 0]
               (replicate 4 (ConstantIndexOp 0)) (snd viewB)
               (threadCopyView ''nRepeat'' ''nPerThread'' (bg_kPerThread op * nC * kPack)
                  (bg_kPerThread op) nRepeat (bg_nPerThread op) kPack)
               [bg_kPerThread op, nRepeat, bg_nPerThread op, kPack]
               (fst viewB) (elementType (bg_matrixBType op)) (elementType (bg_matrixCType op))
               (OpResult (Named ''threadBAllocOp'') 0)"
  assumes "BlockwiseGemmRewritePattern untransform op = Inr r"
    and "0 \<le> bg_kPerThread op" and "0 < bg_mPerThread op" and "0 < bg_nPerThread op"
    and "0 \<le> mC" and "0 \<le> nC" and "0 \<le> kPack"
    and "mC smod bg_mPerThread op = 0" and "nC smod bg_nPerThread op = 0"
  shows "filter isAffineForOp (emitted r) =
      [AffineForOp (Named ''loopOp'') 0 k (bg_kPerThread op)
         [copyALoop, copyBLoop,
          ValOp (reshapeBuffer (OpResult (Named ''threadAAllocOp'') 0)
                   [''k'', ''m'', ''kpack''] [bg_kPerThread op, mC, kPack]),
          ValOp (reshapeBuffer (OpResult (Named ''threadBAllocOp'') 0)
                   [''k'', ''n'', ''kpack''] [bg_kPerThread op, nC, kPack]),
          ThreadwiseGemmOp
            (reshapeBuffer (OpResult (Named ''threadAAllocOp'') 0)
               [''k'', ''m'', ''kpack''] [bg_kPerThread op, mC, kPack])
            (reshapeBuffer (OpResult (Named ''threadBAllocOp'') 0)
               [''k'', ''n'', ''kpack''] [bg_kPerThread op, nC, kPack])
            (bg_matrixC op)]] \<and>
    (\<forall>E. int (length (filter (isReadOf (fst viewA)) (accesses E copyALoop))) =
            bg_kPerThread op * mRepeat * bg_mPerThread op * kPack \<and>
         int (length (filter (isWriteOf (OpResult (Named ''threadAAllocOp'') 0))
                        (accesses E copyALoop))) =
            bg_kPerThread op * mRepeat * bg_mPerThread op * kPack \<and>
         int (length (accesses E copyALoop)) =
            2 * (bg_kPerThread op * mRepeat * bg_mPerThread op * kPack) \<and>
         int (length (filter (isReadOf (fst viewB)) (accesses E copyBLoop))) =
            bg_kPerThread op * nRepeat * bg_nPerThread op * kPack \<and>
         int (length (filter (isWriteOf (OpResult (Named ''threadBAllocOp'') 0))
                        (accesses E copyBLoop))) =
            bg_kPerThread op * nRepeat * bg_nPerThread op * kPack \<and>
         int (length (accesses E copyBLoop)) =
            2 * (bg_kPerThread op * nRepeat * bg_nPerThread op * kPack)) \<and>
    bg_kPerThread op * mRepeat * bg_mPerThread op * kPack = bg_kPerThread op * mC * kPack \<and>
    bg_kPerThread op * nRepeat * bg_nPerThread op * kPack = bg_kPerThread op * nC * kPack"
proof -
  have mr: "0 \<le> mRepeat" and nr: "0 \<le> nRepeat"
    using assms(14-18) by (simp_all add: mRepeat_def nRepeat_def sdiv_nonneg)
  have mp: "0 \<le> bg_mPerThread op" and np: "0 \<le> bg_nPerThread op"
    using assms(15,16) by simp_all
  note a = copyLoop_counts [OF assms(14) mr mp assms(19)]
  note b = copyLoop_counts [OF assms(14) nr np assms(19)]
  have loops: "filter isAffineForOp (emitted r) =
      [AffineForOp (Named ''loopOp'') 0 k (bg_kPerThread op)
         [copyALoop, copyBLoop,
          ValOp (reshapeBuffer (OpResult (Named ''threadAAllocOp'') 0)
                   [''k'', ''m'', ''kpack''] [bg_kPerThread op, mC, kPack]),
          ValOp (reshapeBuffer (OpResult (Named ''threadBAllocOp'') 0)
                   [''k'', ''n'', ''kpack''] [bg_kPerThread op, nC, kPack]),
          ThreadwiseGemmOp
            (reshapeBuffer (OpResult (Named ''threadAAllocOp'') 0)
               [''k'', ''m'', ''kpack''] [bg_kPerThread op, mC, kPack])
            (reshapeBuffer (OpResult (Named ''threadBAllocOp'') 0)
               [''k'', ''n'', ''kpack''] [bg_kPerThread op, nC, kPack])
            (bg_matrixC op)]]"
    using BlockwiseGemm_success [OF assms(13)]
    unfolding assms(1-12)
    by auto
  have sizes: "bg_kPerThread op * mRepeat * bg_mPerThread op * kPack = bg_kPerThread op * mC * kPack"
    "bg_kPerThread op * nRepeat * bg_nPerThread op * kPack = bg_kPerThread op * nC * kPack"
    using assms(20,21) by (simp_all add: mRepeat_def nRepeat_def sdiv_times_exact mult.assoc)
  show ?thesis
    unfolding copyALoop_def copyBLoop_def
    using loops [unfolded copyALoop_def copyBLoop_def] sizes
    by (simp add: a b)
qed

theorem BlockwiseGemm_copy_reads_equal_writes_witness:
  "\<exists>r body.
     BlockwiseGemmRewritePattern exampleUntransform exampleGemm = Inr r \<and>
     filter isAffineForOp (emitted r) = [AffineForOp (Named ''loopOp'') 0 8 2 body] \<and>
     length body = 5 \<and>
     int (length (filter (isReadOf (Operand ''matrixA'')) (accesses exampleEnv (body ! 0)))) = 16 \<and>
     int (length (filter (isWriteOf (OpResult (Named ''threadAAllocOp'') 0))
                    (accesses exampleEnv (body ! 0)))) = 16 \<and>
     int (length (accesses exampleEnv (body ! 0))) = 32 \<and>
     int (length (filter (isReadOf (Operand ''matrixB'')) (accesses exampleEnv (body ! 1)))) = 16 \<and>
     int (length (filter (isWriteOf (OpResult (Named ''threadBAllocOp'') 0))
                    (accesses exampleEnv (body ! 1)))) = 16 \<and>
     int (length (accesses exampleEnv (body ! 1))) = 32"
proof -
  obtain r where r: "BlockwiseGemmRewritePattern exampleUntransform exampleGemm = Inr r"
    using exampleGemm_returns by blast
  have arith: "(4::int) smod 2 = 0" "(4::int) sdiv 2 = 2"
    by (simp_all add: signed_modulo_int_def signed_divide_int_def)
  have h: "0 \<le> bg_kPerThread exampleGemm" "0 < bg_mPerThread exampleGemm"
    "0 < bg_nPerThread exampleGemm" "0 \<le> shape (bg_matrixCType exampleGemm) ! 0"
    "0 \<le> shape (bg_matrixCType exampleGemm) ! 1" "0 \<le> shape (bg_matrixAType exampleGemm) ! 2"
    "shape (bg_matrixCType exampleGemm) ! 0 smod bg_mPerThread exampleGemm = 0"
    "shape (bg_matrixCType exampleGemm) ! 1 smod bg_nPerThread exampleGemm = 0"
    by (simp_all add: exampleGemm_values arith)
  note main = BlockwiseGemm_copy_reads_equal_writes [OF r h]
  show ?thesis
    using main r
    by (simp add: exampleGemm_values arith exampleUntransform_def del: accesses.simps)
qed

subsection \<open>The pass\<close>

lemma applyRule_not_NoIllegalOp: "applyRule rule x \<noteq> NoIllegalOp"
  by (simp add: applyRule_def split: sum.splits)

lemma rewriteOp_clean:
    "rewriteOp t rule x = NoIllegalOp \<Longrightarrow> \<forall>y\<in>set (allOps x). \<not> illegalOps t y"
  and rewriteOps_clean:
    "rewriteOps t rule xs = NoIllegalOp \<Longrightarrow>
       \<forall>y\<in>set (concat (map allOps xs)). \<not> illegalOps t y"
proof (induction t rule x and t rule xs rule: rewriteOp_rewriteOps.induct)
qed (auto simp: applyRule_not_NoIllegalOp split: if_splits Outcome.splits)

lemma driverStep_clean: "cleanState t s \<Longrightarrow> cleanState t (driverStep t rule s)"
  by (cases s) (auto simp: cleanState_def dest: rewriteOps_clean split: Outcome.splits)

lemma driver_clean: "cleanState t s \<Longrightarrow> cleanState t ((driverStep t rule ^^ n) s)"
  by (induction n) (simp_all add: driverStep_clean)

lemma conversionDriver_converged:
  "conversionDriver fuel t rule ir = Converged ir' \<Longrightarrow>
     \<forall>y\<in>set (concat (map allOps ir')). \<not> illegalOps t y"
  using driver_clean [where t = t and s = "NotStarted ir" and rule = rule and n = fuel]
  by (simp add: conversionDriver_def cleanState_def)

lemma isLegal_simps:
  "isLegal target (ValOp v) \<longleftrightarrow>
     dialectOfVal v \<in> {ArithmeticDialect, MIOpenDialect, AffineDialect, MemRefDialect, VectorDialect}"
  "isLegal target (StoreOp v m idx)"
  "isLegal target (AffineForOp i lb ub step body)"
  "isLegal target (TransformingForOp i starts maps bounds strides forceUnroll indexDiffs body)"
  "isLegal target (GpuAllocOp l ty)"
  "isLegal target (ThreadwiseGemmOp a b c)"
  "isLegal target (XdlopsGemmV2Op l x)"
  "isLegal target (BufferStoreOp v m left right idx method)"
  by (simp_all add: isLegal_def target_def)

lemma legal_copy:
  "ThreadwiseCopyV2RewritePattern c = Inr res \<Longrightarrow>
     list_all (isLegal target) (concat (map allOps (emitted res)))"
  by (auto simp: ThreadwiseCopyV2RewritePattern_def Let_def isLegal_simps)

lemma legal_nestedAffineLoop:
  "list_all (isLegal target) (concat (map allOps body)) \<Longrightarrow>
   list_all (isLegal target) (concat (map allOps (nestedAffineLoop d sh body)))"
  by (induction sh arbitrary: d) (simp_all add: isLegal_simps)

lemma legal_fill:
  assumes "FillRewritePattern f = Inr res"
  shows "list_all (isLegal target) (concat (map allOps (emitted res)))"
proof -
  have "res = \<lparr> emitted =
             nestedAffineLoop 0 (shape (fill_inputType f))
               [StoreOp (fill_value f) (fill_input f)
                  (inductionVars 0 (length (shape (fill_inputType f))))],
            replacement = Some [],
            status = success \<rparr>"
    using assms buildAffineLoopNest_nested
            [of 0 "shape (fill_inputType f)"
                "\<lambda>ivs. [StoreOp (fill_value f) (fill_input f) ivs]" "[]"]
    by (simp add: FillRewritePattern_def Let_def)
  then show ?thesis
    by (simp add: legal_nestedAffineLoop isLegal_simps)
qed

lemma legal_copyLoop:
  "list_all (isLegal target)
     (allOps (copyLoop name lds regs transforms view bounds matrix srcTy dstTy alloc))"
  by (simp add: copyLoop_def createTypeConversionOp_def Let_def isLegal_simps)

lemma legal_gemm:
  assumes "BlockwiseGemmRewritePattern untransform g = Inr res"
  shows "list_all (isLegal target) (concat (map allOps (emitted res)))"
  using BlockwiseGemm_success [OF assms]
  by (auto simp: legal_copyLoop isLegal_simps reshapeBuffer_def)

lemma legal_staging:
  "list_all (isLegal target) (concat (map allOps (staging op xcs)))"
  by (simp add: staging_def outerLoopM_def outerLoopN_def loopKLoad_def loadKReduction_def
        timesKPackOps_def Let_def isLegal_simps mOffset_def nOffset_def sourceOffsetA_def
        sourceOffsetB_def sourceOffsetKReduction_def blk_id_def blk_td_def kBaseA_def kBaseB_def)

lemma legal_xdlopsGemms:
  "xdlopsGemms op xcs = Inr (gemms, replaced) \<Longrightarrow>
     list_all (isLegal target) (concat (map allOps gemms))"
  by (auto simp: xdlopsGemms_def Let_def isLegal_simps split: if_splits
           dest: twoXdlopsGemms_result)

lemma legal_gemm_v2:
  assumes "BlockwiseGemmV2RewritePattern get g = Inr res"
  shows "list_all (isLegal target) (concat (map allOps (emitted res)))"
proof -
  obtain xcs where
    xcs: "get (elementType (v2_matrixAType g)) (v2_m_per_wave g) (v2_n_per_wave g) = Inr xcs"
    using assms
    by (auto simp: BlockwiseGemmV2RewritePattern_def Let_def bindE_def
             split: if_splits sum.splits)
  from BlockwiseGemmV2_success [OF assms xcs] obtain gemms replaced where
    g: "xdlopsGemms g xcs = Inr (gemms, replaced)"
    and em: "emitted res =
              [ValOp (ConstantIndexOp (v2_ldsBufferOffsetA g sdiv KPack g)),
               ValOp (aBase g),
               ValOp (ConstantIndexOp (v2_ldsBufferOffsetB g sdiv KPack g)),
               ValOp (bBase g),
               ValOp WorkitemIdOp,
               ValOp (ConstantIndexOp waveSize),
               ValOp laneId,
               ValOp (ConstantIndexOp (v2_m g)),
               ValOp (ConstantIndexOp (v2_n g)),
               ValOp (ConstantIndexOp (v2_k g)),
               ValOp (ConstantIndexOp (MPerXdlops g)),
               ValOp (ConstantIndexOp (NPerXdlops g)),
               ValOp (ConstantIndexOp 0),
               ValOp (ConstantIndexOp (KPerThread g xcs))]
              @ staging g xcs @ gemms"
    by auto
  show ?thesis
    by (simp add: em legal_staging legal_xdlopsGemms [OF g] isLegal_simps aBase_def bBase_def
          laneId_def)
qed

lemma legal_patterns:
  "patterns get untransform x = Inr res \<Longrightarrow>
     list_all (isLegal target) (concat (map allOps (emitted res)))"
  by (cases x) (auto simp: legal_fill legal_gemm legal_gemm_v2 legal_copy)

text \<open>
  C7. The target of the pass declares an operation illegal exactly when it is a fill, a
  blockwise_gemm, a blockwise_gemm_v2 or a threadwise_copy_v2, and declares the dialects
  arith, miopen, affine, memref and vector legal. If the pass succeeds, no operation of the
  four kinds remains in the IR, regions included. Every operation that a pattern of the pass
  creates is legal: it belongs to one of the five dialects and is none of the four kinds. If
  the conversion driver reports failure, the pass signals pass failure.
\<close>

theorem pass_declares_and_removes_illegal_ops:
  "(illegalOps target x \<longleftrightarrow>
      (\<exists>f. x = Fill f) \<or> (\<exists>g. x = BlockwiseGemm g) \<or> (\<exists>g. x = BlockwiseGemmV2 g) \<or>
      (\<exists>c. x = ThreadwiseCopyV2 c)) \<and>
   legalDialects target =
     [ArithmeticDialect, MIOpenDialect, AffineDialect, MemRefDialect, VectorDialect] \<and>
   (runOnOperation (conversionDriver fuel) get untransform ir = PassSucceeded ir' \<longrightarrow>
      list_all (\<lambda>y. \<not> illegalOps target y) (concat (map allOps ir'))) \<and>
   (patterns get untransform x = Inr res \<longrightarrow>
      list_all (isLegal target) (concat (map allOps (emitted res)))) \<and>
   (applyPartialConversion target (patterns get untransform) ir = Failed \<longrightarrow>
      runOnOperation applyPartialConversion get untransform ir = PassFailureSignalled)"
proof (intro conjI impI)
  show "illegalOps target x \<longleftrightarrow>
      (\<exists>f. x = Fill f) \<or> (\<exists>g. x = BlockwiseGemm g) \<or> (\<exists>g. x = BlockwiseGemmV2 g) \<or>
      (\<exists>c. x = ThreadwiseCopyV2 c)"
    by (cases x) (simp_all add: target_def)
  show "legalDialects target =
     [ArithmeticDialect, MIOpenDialect, AffineDialect, MemRefDialect, VectorDialect]"
    by (simp add: target_def)
next
  assume "runOnOperation (conversionDriver fuel) get untransform ir = PassSucceeded ir'"
  then have "conversionDriver fuel target (patterns get untransform) ir = Converged ir'"
    by (simp add: runOnOperation_def split: DriverState.splits)
  then show "list_all (\<lambda>y. \<not> illegalOps target y) (concat (map allOps ir'))"
    using conversionDriver_converged by (simp add: list_all_iff)
next
  assume "patterns get untransform x = Inr res"
  then show "list_all (isLegal target) (concat (map allOps (emitted res)))"
    by (rule legal_patterns)
next
  assume "applyPartialConversion target (patterns get untransform) ir = Failed"
  then show "runOnOperation applyPartialConversion get untransform ir = PassFailureSignalled"
    by (simp add: runOnOperation_def)
qed

theorem pass_declares_and_removes_illegal_ops_witness:
  "illegalOps target (Fill exampleFill) \<and>
   \<not> illegalOps target (StoreOp (Operand ''zero'') (Operand ''buffer'') []) \<and>
   runOnOperation (conversionDriver 4) (\<lambda>ty m n. Inr exampleSelection) exampleUntransform
     [OtherOp ''func'' [Fill exampleFill, ThreadwiseCopyV2 exampleCopy]] =
     PassSucceeded
       [OtherOp ''func''
          [AffineForOp (Dim 0) 0 2 1
             [AffineForOp (Dim 1) 0 3 1
                [StoreOp (Operand ''zero'') (Operand ''buffer'')
                   [InductionVar (Dim 0), InductionVar (Dim 1)]]],
           ValOp (InBoundsLoadOp (VectorType [4] F32) (Operand ''src'') [Operand ''i'']),
           BufferStoreOp (InBoundsLoadOp (VectorType [4] F32) (Operand ''src'') [Operand ''i''])
             (Operand ''dst'') [] [1] [Operand ''x'', Operand ''y''] StoreSet]] \<and>
   list_all (\<lambda>y. \<not> illegalOps target y)
     (allOps
       (OtherOp ''func''
          [AffineForOp (Dim 0) 0 2 1
             [AffineForOp (Dim 1) 0 3 1
                [StoreOp (Operand ''zero'') (Operand ''buffer'')
                   [InductionVar (Dim 0), InductionVar (Dim 1)]]],
           ValOp (InBoundsLoadOp (VectorType [4] F32) (Operand ''src'') [Operand ''i'']),
           BufferStoreOp (InBoundsLoadOp (VectorType [4] F32) (Operand ''src'') [Operand ''i''])
             (Operand ''dst'') [] [1] [Operand ''x'', Operand ''y''] StoreSet])) \<and>
   list_all (isLegal target)
     [ValOp (InBoundsLoadOp (VectorType [4] F32) (Operand ''src'') [Operand ''i'']),
      BufferStoreOp (InBoundsLoadOp (VectorType [4] F32) (Operand ''src'') [Operand ''i''])
        (Operand ''dst'') [] [1] [Operand ''x'', Operand ''y''] StoreSet] \<and>
   runOnOperation (\<lambda>t rule ir. Failed) (\<lambda>ty m n. Inr exampleSelection) exampleUntransform
     [Fill exampleFill] = PassFailureSignalled"
proof -
  have copy: "ThreadwiseCopyV2RewritePattern exampleCopy =
     Inr \<lparr> emitted =
            [ValOp (InBoundsLoadOp (VectorType [4] F32) (Operand ''src'') [Operand ''i'']),
             BufferStoreOp (InBoundsLoadOp (VectorType [4] F32) (Operand ''src'') [Operand ''i''])
               (Operand ''dst'') [] [1] [Operand ''x'', Operand ''y''] StoreSet],
            replacement = Some [], status = success \<rparr>"
    by (simp add: ThreadwiseCopyV2RewritePattern_def typeToLoad_def exampleCopy_def Let_def)
  have fill: "FillRewritePattern exampleFill =
     Inr \<lparr> emitted =
            [AffineForOp (Dim 0) 0 2 1
               [AffineForOp (Dim 1) 0 3 1
                  [StoreOp (Operand ''zero'') (Operand ''buffer'')
                     [InductionVar (Dim 0), InductionVar (Dim 1)]]]],
            replacement = Some [], status = success \<rparr>"
    by (simp add: FillRewritePattern_def exampleFill_def Let_def)
  have run: "runOnOperation (conversionDriver 4) (\<lambda>ty m n. Inr exampleSelection)
     exampleUntransform [OtherOp ''func'' [Fill exampleFill, ThreadwiseCopyV2 exampleCopy]] =
     PassSucceeded
       [OtherOp ''func''
          [AffineForOp (Dim 0) 0 2 1
             [AffineForOp (Dim 1) 0 3 1
                [StoreOp (Operand ''zero'') (Operand ''buffer'')
                   [InductionVar (Dim 0), InductionVar (Dim 1)]]],
           ValOp (InBoundsLoadOp (VectorType [4] F32) (Operand ''src'') [Operand ''i'']),
           BufferStoreOp (InBoundsLoadOp (VectorType [4] F32) (Operand ''src'') [Operand ''i''])
             (Operand ''dst'') [] [1] [Operand ''x'', Operand ''y''] StoreSet]]"
    by (simp add: runOnOperation_def conversionDriver_def eval_nat_numeral target_def
          applyRule_def copy fill)
  have failed: "(\<lambda>t rule ir. Failed) target
                  (patterns (\<lambda>ty m n. Inr exampleSelection) exampleUntransform)
                  [Fill exampleFill] = Failed"
    by simp
  have pat: "patterns (\<lambda>ty m n. Inr exampleSelection) exampleUntransform
               (ThreadwiseCopyV2 exampleCopy) =
     Inr \<lparr> emitted =
            [ValOp (InBoundsLoadOp (VectorType [4] F32) (Operand ''src'') [Operand ''i'']),
             BufferStoreOp (InBoundsLoadOp (VectorType [4] F32) (Operand ''src'') [Operand ''i''])
               (Operand ''dst'') [] [1] [Operand ''x'', Operand ''y''] StoreSet],
            replacement = Some [], status = success \<rparr>"
    by (simp add: copy)
  note a = pass_declares_and_removes_illegal_ops
             [where x = "Fill exampleFill" and get = "\<lambda>ty m n. Inr exampleSelection"
                and untransform = exampleUntransform and fuel = 4
                and ir = "[OtherOp ''func'' [Fill exampleFill, ThreadwiseCopyV2 exampleCopy]]"
                and applyPartialConversion = "\<lambda>t rule ir. Failed"
                and ir' = "[OtherOp ''func''
          [AffineForOp (Dim 0) 0 2 1
             [AffineForOp (Dim 1) 0 3 1
                [StoreOp (Operand ''zero'') (Operand ''buffer'')
                   [InductionVar (Dim 0), InductionVar (Dim 1)]]],
           ValOp (InBoundsLoadOp (VectorType [4] F32) (Operand ''src'') [Operand ''i'']),
           BufferStoreOp (InBoundsLoadOp (VectorType [4] F32) (Operand ''src'') [Operand ''i''])
             (Operand ''dst'') [] [1] [Operand ''x'', Operand ''y''] StoreSet]]"]
  note b = pass_declares_and_removes_illegal_ops
             [where x = "StoreOp (Operand ''zero'') (Operand ''buffer'') []"]
  note c = pass_declares_and_removes_illegal_ops
             [where x = "ThreadwiseCopyV2 exampleCopy"
                and get = "\<lambda>ty m n. Inr exampleSelection"
                and untransform = exampleUntransform
                and ir = "[Fill exampleFill]"
                and applyPartialConversion = "\<lambda>t rule ir. Failed"
                and res = "\<lparr> emitted =
            [ValOp (InBoundsLoadOp (VectorType [4] F32) (Operand ''src'') [Operand ''i'']),
             BufferStoreOp (InBoundsLoadOp (VectorType [4] F32) (Operand ''src'') [Operand ''i''])
               (Operand ''dst'') [] [1] [Operand ''x'', Operand ''y''] StoreSet],
            replacement = Some [], status = success \<rparr>"]
  have 1: "illegalOps target (Fill exampleFill)" using a by blast
  have 2: "\<not> illegalOps target (StoreOp (Operand ''zero'') (Operand ''buffer'') [])"
    using b by blast
  have 3: "list_all (\<lambda>y. \<not> illegalOps target y)
     (allOps
       (OtherOp ''func''
          [AffineForOp (Dim 0) 0 2 1
             [AffineForOp (Dim 1) 0 3 1
                [StoreOp (Operand ''zero'') (Operand ''buffer'')
                   [InductionVar (Dim 0), InductionVar (Dim 1)]]],
           ValOp (InBoundsLoadOp (VectorType [4] F32) (Operand ''src'') [Operand ''i'']),
           BufferStoreOp (InBoundsLoadOp (VectorType [4] F32) (Operand ''src'') [Operand ''i''])
             (Operand ''dst'') [] [1] [Operand ''x'', Operand ''y''] StoreSet]))"
    using a run by (simp del: allOps.simps)
  have 4: "list_all (isLegal target)
     [ValOp (InBoundsLoadOp (VectorType [4] F32) (Operand ''src'') [Operand ''i'']),
      BufferStoreOp (InBoundsLoadOp (VectorType [4] F32) (Operand ''src'') [Operand ''i''])
        (Operand ''dst'') [] [1] [Operand ''x'', Operand ''y''] StoreSet]"
    using c pat by simp
  have 5: "runOnOperation (\<lambda>t rule ir. Failed) (\<lambda>ty m n. Inr exampleSelection)
     exampleUntransform [Fill exampleFill] = PassFailureSignalled"
    using c failed by blast
  show ?thesis
    using 1 2 run 3 4 5 by blast
qed

end
